theory Spec2Isabelle
  imports Main
begin

section \<open>JavaScript values\<close>

text \<open>
  The request handlers of the Radio VoIP bridge work on values that come out of
  \<^verbatim>\<open>JSON.parse\<close>, on the module variables of \<^verbatim>\<open>main.cjs\<close> and on the
  \<^verbatim>\<open>state\<close> object of \<^verbatim>\<open>lib/httpServer.cjs\<close>. This section holds the part of
  the language that the program uses on them: \<^verbatim>\<open>typeof\<close>, truthiness, property reads,
  \<^verbatim>\<open>Array.prototype.includes\<close> and \<^verbatim>\<open>String(...)\<close>.

  A Number is \<open>NaN\<close>, an infinity, a zero, or a finite non-zero value. A finite non-zero
  value is kept in the form in which ECMAScript's \<^verbatim>\<open>Number::toString\<close> reads it:
  \<open>Num neg s e\<close> stands for \<open>(if neg then -1 else 1) * s * 10 ^ e\<close>, where \<open>s\<close> is
  positive and its last decimal digit is not \<open>0\<close> (the digit string is as short as
  possible). So \<^verbatim>\<open>45.3\<close> is \<open>Num False 453 (-1)\<close> and \<^verbatim>\<open>100\<close> is
  \<open>Num False 1 2\<close>. How an engine finds these digits from the bits of a double is not
  part of this development; the program does no arithmetic on such values.
\<close>

datatype jsnum = NaN | Inf bool | Zero bool | Num bool nat int

datatype jsval =
    Undefined
  | Null
  | JBool bool
  | JNum jsnum
  | JStr string
  | JArr "jsval list"
  | JObj "(string \<times> jsval) list"

text \<open>
  An object is the list of its own properties, in insertion order, with distinct keys
  (\<^verbatim>\<open>JSON.parse\<close> keeps the last of several members with one name).
\<close>

datatype exn = TypeError | SyntaxError | StreamError

fun typeof :: "jsval \<Rightarrow> string" where
  "typeof Undefined = ''undefined''"
| "typeof Null = ''object''"
| "typeof (JBool b) = ''boolean''"
| "typeof (JNum x) = ''number''"
| "typeof (JStr s) = ''string''"
| "typeof (JArr xs) = ''object''"
| "typeof (JObj fs) = ''object''"

text \<open>\<^verbatim>\<open>ToBoolean\<close>: what \<^verbatim>\<open>if (v)\<close> tests.\<close>

fun truthy :: "jsval \<Rightarrow> bool" where
  "truthy Undefined = False"
| "truthy Null = False"
| "truthy (JBool b) = b"
| "truthy (JNum NaN) = False"
| "truthy (JNum (Zero neg)) = False"
| "truthy (JNum (Inf neg)) = True"
| "truthy (JNum (Num neg s e)) = True"
| "truthy (JStr s) = (s \<noteq> [])"
| "truthy (JArr xs) = True"
| "truthy (JObj fs) = True"

text \<open>
  The property read \<^verbatim>\<open>v.k\<close>. Reading a property of \<^verbatim>\<open>null\<close> or
  \<^verbatim>\<open>undefined\<close> throws a TypeError. The program reads the keys \<^verbatim>\<open>url\<close>,
  \<^verbatim>\<open>frequency\<close>, \<^verbatim>\<open>frequencies\<close> and \<^verbatim>\<open>earSide\<close> only; no prototype
  defines one of them, so on a primitive or an array the read gives \<^verbatim>\<open>undefined\<close>
  and on an object it gives the own property, if there is one.
\<close>

fun getp :: "jsval \<Rightarrow> string \<Rightarrow> exn + jsval" where
  "getp Undefined k = Inl TypeError"
| "getp Null k = Inl TypeError"
| "getp (JObj fs) k = Inr (case map_of fs k of None \<Rightarrow> Undefined | Some v \<Rightarrow> v)"
| "getp v k = Inr Undefined"

text \<open>
  \<^verbatim>\<open>SameValueZero\<close> on Numbers, and \<^verbatim>\<open>xs.includes(v)\<close> for an array literal
  \<open>xs\<close> of Numbers: a value that is not a Number is never found.
\<close>

fun same_value_zero :: "jsnum \<Rightarrow> jsnum \<Rightarrow> bool" where
  "same_value_zero NaN NaN = True"
| "same_value_zero (Zero a) (Zero b) = True"
| "same_value_zero x y = (x = y)"

fun array_includes :: "jsnum list \<Rightarrow> jsval \<Rightarrow> bool" where
  "array_includes xs (JNum x) = list_ex (same_value_zero x) xs"
| "array_includes xs v = False"

definition ear_sides :: "jsnum list" where
  \<comment> \<open>the array literal \<^verbatim>\<open>[0, 1, 2]\<close>\<close>
  "ear_sides = [Zero False, Num False 1 0, Num False 2 0]"

subsection \<open>Conversion to a string\<close>

fun digits :: "nat \<Rightarrow> nat list" where
  "digits n = (if n < 10 then [n] else digits (n div 10) @ [n mod 10])"

declare digits.simps [simp del]

definition digit_char :: "nat \<Rightarrow> char" where
  "digit_char d = ''0123456789'' ! d"

definition decimal :: "nat \<Rightarrow> string" where
  "decimal n = map digit_char (digits n)"

text \<open>
  \<^verbatim>\<open>Number::toString\<close> with radix 10 on a positive finite value \<open>s * 10 ^ e\<close>
  (steps 5 to 9 of the ECMAScript algorithm): with \<open>k\<close> the number of digits of \<open>s\<close>
  and \<open>n = e + k\<close> the position of the decimal point, the digits are laid out as an
  integer, as a decimal fraction, or in exponent notation.
\<close>

definition positive_toString :: "nat \<Rightarrow> int \<Rightarrow> string" where
  "positive_toString s e =
     (let ds = decimal s; k = int (length ds); n = e + k in
      if - 5 \<le> n \<and> n \<le> 21 then
        (if k \<le> n then ds @ replicate (nat (n - k)) (CHR ''0'')
         else if 0 < n then take (nat n) ds @ ''.'' @ drop (nat n) ds
         else ''0.'' @ replicate (nat (- n)) (CHR ''0'') @ ds)
      else
        (let ex = n - 1;
             sign = (if ex < 0 then ''-'' else ''+'');
             es = decimal (nat \<bar>ex\<bar>)
         in if k = 1 then ds @ ''e'' @ sign @ es
            else take 1 ds @ ''.'' @ drop 1 ds @ ''e'' @ sign @ es))"

fun Number_toString :: "jsnum \<Rightarrow> string" where
  "Number_toString NaN = ''NaN''"
| "Number_toString (Zero neg) = ''0''"
| "Number_toString (Inf neg) = (if neg then ''-Infinity'' else ''Infinity'')"
| "Number_toString (Num neg s e) =
     (if neg then ''-'' @ positive_toString s e else positive_toString s e)"

text \<open>
  \<^verbatim>\<open>String(v)\<close>. On an array it is \<^verbatim>\<open>join(",")\<close>, where \<^verbatim>\<open>null\<close> and
  \<^verbatim>\<open>undefined\<close> elements give the empty string. On an object it is
  \<^verbatim>\<open>"[object Object]"\<close>, unless the object has an own property \<^verbatim>\<open>toString\<close>:
  a value read from JSON is never callable, so the conversion finds no method that
  returns a primitive and throws a TypeError.
\<close>

fun js_String :: "jsval \<Rightarrow> exn + string"
  and js_join :: "jsval list \<Rightarrow> exn + string" where
  "js_String Undefined = Inr ''undefined''"
| "js_String Null = Inr ''null''"
| "js_String (JBool b) = Inr (if b then ''true'' else ''false'')"
| "js_String (JNum x) = Inr (Number_toString x)"
| "js_String (JStr s) = Inr s"
| "js_String (JArr xs) = js_join xs"
| "js_String (JObj fs) =
     (if map_of fs ''toString'' \<noteq> None then Inl TypeError else Inr ''[object Object]'')"
| "js_join [] = Inr []"
| "js_join (x # xs) =
     (case (if x = Undefined \<or> x = Null then Inr [] else js_String x) of
        Inl err \<Rightarrow> Inl err
      | Inr a \<Rightarrow>
          (if xs = [] then Inr a
           else case js_join xs of Inl err \<Rightarrow> Inl err | Inr b \<Rightarrow> Inr (a @ '','' @ b)))"

section \<open>The library module: validation and status\<close>

text \<open>
  \<^verbatim>\<open>isValidFrequency\<close> is a chain of \<^verbatim>\<open>&&\<close>: each operand is evaluated only when
  the ones before it were true, so the two property reads happen only on a value that
  is neither \<^verbatim>\<open>null\<close> nor a primitive.
\<close>

definition isValidFrequency :: "jsval \<Rightarrow> exn + bool" where
  "isValidFrequency freq =
     (if typeof freq \<noteq> ''object'' then Inr False
      else if freq = Null then Inr False
      else case getp freq ''frequency'' of
        Inl err \<Rightarrow> Inl err
      | Inr f \<Rightarrow>
          if typeof f \<noteq> ''number'' then Inr False
          else case getp freq ''earSide'' of
            Inl err \<Rightarrow> Inl err
          | Inr s \<Rightarrow>
              if typeof s \<noteq> ''number'' then Inr False
              else Inr (array_includes ear_sides s))"

text \<open>\<^verbatim>\<open>Array.prototype.every\<close>: stops at the first element whose test is false.\<close>

fun every :: "('a \<Rightarrow> exn + bool) \<Rightarrow> 'a list \<Rightarrow> exn + bool" where
  "every p [] = Inr True"
| "every p (x # xs) =
     (case p x of Inl err \<Rightarrow> Inl err | Inr b \<Rightarrow> if b then every p xs else Inr False)"

fun isArray :: "jsval \<Rightarrow> bool" where
  "isArray (JArr xs) = True"
| "isArray v = False"

fun isValidFrequenciesArray :: "jsval \<Rightarrow> exn + bool" where
  "isValidFrequenciesArray (JArr xs) = every isValidFrequency xs"
| "isValidFrequenciesArray v = Inr False"

definition frequencyToString :: "jsval \<Rightarrow> exn + string" where
  "frequencyToString frequency = js_String frequency"

text \<open>
  \<^verbatim>\<open>getConnectionStatus(serverURL, mainWindow)\<close>. The window is a
  \<^verbatim>\<open>BrowserWindow\<close> object or \<^verbatim>\<open>null\<close>; the boolean says whether there is one.
\<close>

definition getConnectionStatus :: "jsval \<Rightarrow> bool \<Rightarrow> string" where
  "getConnectionStatus serverURL mainWindow =
     (if truthy serverURL then ''CONNECTED''
      else if mainWindow then ''WAITING_FOR_CONNECTION''
      else ''DISCONNECTED'')"

section \<open>Requests, responses and the session state\<close>

text \<open>
  A request body is read as text and handed to \<^verbatim>\<open>JSON.parse\<close> unless it is empty.
  The body of a request is kept as what this reading makes of it: the stream failed
  (\<open>Aborted\<close>), the text is empty (\<open>Empty\<close>), the text is not empty and
  \<^verbatim>\<open>JSON.parse\<close> throws on it (\<open>Malformed\<close>), or it parses to a value
  (\<open>Json v\<close>).
\<close>

datatype raw_body = Aborted | Empty | Malformed | Json jsval

record request =
  req_method :: string
  req_url :: string
  req_origin :: "string option"
  req_body :: raw_body

text \<open>
  A response is its status code, its headers and the value written as its body
  (\<open>None\<close> when \<^verbatim>\<open>res.end()\<close> is called with no data). The body is kept as the
  value given to \<^verbatim>\<open>JSON.stringify\<close>, not as its text.
\<close>

record response =
  statusCode :: nat
  headers :: "(string \<times> string) list"
  payload :: "jsval option"

text \<open>
  The session state: the four module variables of \<^verbatim>\<open>main.cjs\<close>, which are also the
  four fields of the \<^verbatim>\<open>state\<close> object of the library's handler. \<open>mainWindow\<close> says
  whether there is a window, \<open>lastHeartbeat\<close> is \<^verbatim>\<open>null\<close> or a reading of
  \<^verbatim>\<open>Date.now()\<close> in milliseconds.
\<close>

record state =
  mainWindow :: bool
  isPTTPressed :: bool
  serverURL :: jsval
  lastHeartbeat :: "int option"

definition initial_state :: state where
  "initial_state =
     \<lparr>mainWindow = False, isPTTPressed = False, serverURL = Null, lastHeartbeat = None\<rparr>"

fun bind_exn :: "exn + 'a \<Rightarrow> ('a \<Rightarrow> exn + 'b) \<Rightarrow> exn + 'b" where
  "bind_exn (Inl err) f = Inl err"
| "bind_exn (Inr v) f = f v"

fun parseJSONBody :: "raw_body \<Rightarrow> exn + jsval" where
  "parseJSONBody Aborted = Inl StreamError"
| "parseJSONBody Empty = Inr (JObj [])"
| "parseJSONBody Malformed = Inl SyntaxError"
| "parseJSONBody (Json v) = Inr v"

text \<open>\<^verbatim>\<open>s.includes(sub)\<close> on strings.\<close>

fun str_includes :: "string \<Rightarrow> string \<Rightarrow> bool" where
  "str_includes [] sub = (sub = [])"
| "str_includes (c # cs) sub = (take (length sub) (c # cs) = sub \<or> str_includes cs sub)"

definition setCORSHeaders :: "string option \<Rightarrow> (string \<times> string) list" where
  "setCORSHeaders origin =
     [(''Access-Control-Allow-Origin'',
        (case origin of
           None \<Rightarrow> ''http://127.0.0.1''
         | Some orig \<Rightarrow>
             if orig \<noteq> [] \<and> (str_includes orig ''localhost'' \<or> str_includes orig ''127.0.0.1'')
             then orig else ''http://127.0.0.1'')),
      (''Access-Control-Allow-Methods'', ''GET, POST, OPTIONS''),
      (''Access-Control-Allow-Headers'', ''Content-Type'')]"

definition sendJSON :: "(string \<times> string) list \<Rightarrow> nat \<Rightarrow> jsval \<Rightarrow> response" where
  \<comment> \<open>\<open>hs\<close>: the headers set on the response so far\<close>
  "sendJSON hs code data =
     \<lparr>statusCode = code, headers = hs @ [(''Content-Type'', ''application/json'')],
      payload = Some data\<rparr>"

definition preflight :: "(string \<times> string) list \<Rightarrow> response" where
  \<comment> \<open>\<^verbatim>\<open>res.writeHead(200); res.end();\<close>\<close>
  "preflight hs = \<lparr>statusCode = 200, headers = hs, payload = None\<rparr>"

definition success :: jsval where
  "success = JObj [(''success'', JBool True)]"

definition error_body :: "string \<Rightarrow> jsval" where
  "error_body msg = JObj [(''error'', JStr msg)]"

definition status_body :: "state \<Rightarrow> jsval" where
  "status_body st =
     JObj [(''running'', JBool True),
           (''status'', JStr (getConnectionStatus (serverURL st) (mainWindow st))),
           (''pttPressed'', JBool (isPTTPressed st)),
           (''connected'', JBool (serverURL st \<noteq> Null)),
           (''serverURL'', serverURL st)]"

text \<open>The length of an array as a Number.\<close>

fun number_of_nat :: "nat \<Rightarrow> int \<Rightarrow> jsnum" where
  "number_of_nat s e =
     (if s = 0 then Zero False
      else if s mod 10 = 0 then number_of_nat (s div 10) (e + 1)
      else Num False s e)"

declare number_of_nat.simps [simp del]

fun map_exn :: "('a \<Rightarrow> exn + 'b) \<Rightarrow> 'a list \<Rightarrow> exn + 'b list" where
  "map_exn f [] = Inr []"
| "map_exn f (x # xs) =
     bind_exn (f x) (\<lambda>y. bind_exn (map_exn f xs) (\<lambda>ys. Inr (y # ys)))"

definition withString :: "jsval \<Rightarrow> exn + jsval" where
  \<comment> \<open>\<^verbatim>\<open>f => ({ frequency: frequencyToString(f.frequency), earSide: f.earSide })\<close>\<close>
  "withString f =
     bind_exn (getp f ''frequency'') (\<lambda>v.
     bind_exn (frequencyToString v) (\<lambda>str.
     bind_exn (getp f ''earSide'') (\<lambda>side.
     Inr (JObj [(''frequency'', JStr str), (''earSide'', side)]))))"

fun elements :: "jsval \<Rightarrow> jsval list" where
  "elements (JArr xs) = xs"
| "elements v = []"

section \<open>The request handler of the library module\<close>

text \<open>
  \<^verbatim>\<open>createRequestHandler(state, callbacks)\<close> of \<^verbatim>\<open>lib/httpServer.cjs\<close>. The
  handler reports to its caller through optional callbacks
  (\<^verbatim>\<open>callbacks.onPTTPress?.()\<close>); the calls it makes are returned as a list, in
  order. A callback is taken to return normally and to leave the state object alone.
  \<open>now\<close> is the reading of \<^verbatim>\<open>Date.now()\<close> while the request is handled.
\<close>

datatype callback =
    onPTTPress
  | onPTTRelease
  | onConnect jsval
  | onDisconnect string
  | onFrequencyChange string
  | onFrequenciesUpdate jsval
  | onActiveChannelChange string
  | onEarSideChange jsval
  | onFrequencyDisconnect string

type_synonym handled = "state \<times> callback list \<times> response"

text \<open>
  The body of the \<^verbatim>\<open>try\<close> block. \<open>Inl\<close> is an exception thrown inside it. No route
  changes the state or calls back before the last point at which it can throw, so an
  exception leaves neither a state change nor a call behind.
\<close>

definition routes :: "int \<Rightarrow> state \<Rightarrow> request \<Rightarrow> (string \<times> string) list \<Rightarrow> exn + handled" where
  "routes now st req hs =
     (let url = req_url req; method = req_method req in
      if url = ''/ptt/press'' \<and> method = ''POST'' then
        (if mainWindow st \<and> \<not> isPTTPressed st
         then Inr (st\<lparr>isPTTPressed := True\<rparr>, [onPTTPress], sendJSON hs 200 success)
         else Inr (st, [], sendJSON hs 200 success))
      else if url = ''/ptt/release'' \<and> method = ''POST'' then
        (if mainWindow st \<and> isPTTPressed st
         then Inr (st\<lparr>isPTTPressed := False\<rparr>, [onPTTRelease], sendJSON hs 200 success)
         else Inr (st, [], sendJSON hs 200 success))
      else if url = ''/status'' \<and> method = ''GET'' then
        Inr (st, [], sendJSON hs 200 (status_body st))
      else if url = ''/connect'' \<and> method = ''POST'' then
        bind_exn (parseJSONBody (req_body req)) (\<lambda>data.
        bind_exn (getp data ''url'') (\<lambda>u.
          if truthy u
          then Inr (st\<lparr>serverURL := u, lastHeartbeat := Some now\<rparr>, [onConnect u],
                    sendJSON hs 200 (JObj [(''success'', JBool True), (''url'', u)]))
          else Inr (st, [], sendJSON hs 400 (error_body ''Missing url parameter''))))
      else if url = ''/disconnect'' \<and> method = ''POST'' then
        Inr (st, [onDisconnect ''manual''], sendJSON hs 200 success)
      else if url = ''/heartbeat'' \<and> method = ''POST'' then
        Inr (st\<lparr>lastHeartbeat := Some now\<rparr>, [], sendJSON hs 200 success)
      else if url = ''/frequency'' \<and> method = ''POST'' then
        bind_exn (parseJSONBody (req_body req)) (\<lambda>data.
        bind_exn (getp data ''frequency'') (\<lambda>f.
          if f \<noteq> Undefined
          then bind_exn (frequencyToString f) (\<lambda>frequency.
                 Inr (st, [onFrequencyChange frequency],
                      sendJSON hs 200
                        (JObj [(''success'', JBool True), (''frequency'', JStr frequency)])))
          else Inr (st, [], sendJSON hs 400 (error_body ''Missing frequency parameter''))))
      else if url = ''/frequencies'' \<and> method = ''POST'' then
        bind_exn (parseJSONBody (req_body req)) (\<lambda>data.
        bind_exn (getp data ''frequencies'') (\<lambda>fs.
          if \<not> isArray fs
          then Inr (st, [], sendJSON hs 400 (error_body ''frequencies must be an array''))
          else bind_exn (isValidFrequenciesArray fs) (\<lambda>valid.
            if \<not> valid
            then Inr (st, [], sendJSON hs 400 (error_body
                   ''Invalid frequency format. Expected: [{frequency: number, earSide: 0|1|2}]''))
            else bind_exn (map_exn withString (elements fs)) (\<lambda>frequenciesWithStrings.
              Inr (st, [onFrequenciesUpdate (JArr frequenciesWithStrings)],
                   sendJSON hs 200
                     (JObj [(''success'', JBool True),
                            (''count'',
                               JNum (number_of_nat (length frequenciesWithStrings) 0))]))))))
      else if url = ''/active-channel'' \<and> method = ''POST'' then
        bind_exn (parseJSONBody (req_body req)) (\<lambda>data.
        bind_exn (getp data ''frequency'') (\<lambda>f.
          if typeof f \<noteq> ''number''
          then Inr (st, [], sendJSON hs 400 (error_body ''frequency must be a number''))
          else bind_exn (frequencyToString f) (\<lambda>frequencyStr.
            Inr (st, [onActiveChannelChange frequencyStr],
                 sendJSON hs 200
                   (JObj [(''success'', JBool True), (''frequency'', JStr frequencyStr)])))))
      else if url = ''/ear-side'' \<and> method = ''POST'' then
        bind_exn (parseJSONBody (req_body req)) (\<lambda>data.
        bind_exn (getp data ''frequency'') (\<lambda>f.
          if typeof f \<noteq> ''number''
          then Inr (st, [], sendJSON hs 400 (error_body ''frequency and earSide must be numbers''))
          else bind_exn (getp data ''earSide'') (\<lambda>side.
            if typeof side \<noteq> ''number''
            then Inr (st, [],
                   sendJSON hs 400 (error_body ''frequency and earSide must be numbers''))
            else if \<not> array_includes ear_sides side
            then Inr (st, [], sendJSON hs 400 (error_body
                   ''earSide must be 0 (left), 1 (right), or 2 (both)''))
            else bind_exn (frequencyToString f) (\<lambda>frequencyStr.
              Inr (st,
                   [onEarSideChange (JObj [(''frequency'', JStr frequencyStr), (''earSide'', side)])],
                   sendJSON hs 200
                     (JObj [(''success'', JBool True), (''frequency'', JStr frequencyStr),
                            (''earSide'', side)]))))))
      else if url = ''/frequency/disconnect'' \<and> method = ''POST'' then
        bind_exn (parseJSONBody (req_body req)) (\<lambda>data.
        bind_exn (getp data ''frequency'') (\<lambda>f.
          if typeof f \<noteq> ''number''
          then Inr (st, [], sendJSON hs 400 (error_body ''frequency must be a number''))
          else bind_exn (frequencyToString f) (\<lambda>frequencyStr.
            Inr (st, [onFrequencyDisconnect frequencyStr],
                 sendJSON hs 200
                   (JObj [(''success'', JBool True), (''frequency'', JStr frequencyStr)])))))
      else Inr (st, [], sendJSON hs 404 (error_body ''Not found'')))"

definition createRequestHandler :: "int \<Rightarrow> state \<Rightarrow> request \<Rightarrow> handled" where
  "createRequestHandler now st req =
     (let hs = setCORSHeaders (req_origin req) in
      if req_method req = ''OPTIONS'' then (st, [], preflight hs)
      else case routes now st req hs of
        Inr done \<Rightarrow> done
      | Inl err \<Rightarrow> (st, [], sendJSON hs 400 (error_body ''Invalid JSON'')))"

section \<open>The server of the main process\<close>

text \<open>
  \<^verbatim>\<open>main.cjs\<close> holds the session state in module variables and talks to the window
  directly. What it does to the window is returned as a list of effects:
  \<^verbatim>\<open>mainWindow.webContents.send(channel, ...args)\<close>, \<^verbatim>\<open>mainWindow.loadURL(url)\<close>
  and \<^verbatim>\<open>mainWindow.loadFile(page)\<close>. A call on the window is taken to return
  normally. Console output is left out, except for the line in which
  \<^verbatim>\<open>disconnect\<close> prints its reason, the only trace the reason leaves.
\<close>

datatype effect =
    send string "jsval list"
  | loadURL jsval
  | loadFile string
  | log_disconnect string

definition HEARTBEAT_TIMEOUT :: int where
  "HEARTBEAT_TIMEOUT = 30000"

definition disconnect :: "string \<Rightarrow> state \<Rightarrow> state \<times> effect list" where
  "disconnect reason st =
     (let released = (isPTTPressed st \<and> mainWindow st);
          st1 = (if released then st\<lparr>isPTTPressed := False\<rparr> else st);
          st2 = st1\<lparr>serverURL := Null, lastHeartbeat := None\<rparr>
      in (st2,
          [log_disconnect reason]
          @ (if released then [send ''ptt:release'' []] else [])
          @ (if mainWindow st2 then [loadFile ''waiting.html''] else [])))"

text \<open>
  The function that \<^verbatim>\<open>startHeartbeatCheck\<close> gives to \<^verbatim>\<open>setInterval\<close> with a
  period of 5000 ms. \<^verbatim>\<open>lastHeartbeat && serverURL\<close> tests truthiness: a time stamp
  is truthy unless it is \<open>0\<close>.
\<close>

definition heartbeatCheck :: "int \<Rightarrow> state \<Rightarrow> state \<times> effect list" where
  "heartbeatCheck now st =
     (case lastHeartbeat st of
        None \<Rightarrow> (st, [])
      | Some t \<Rightarrow>
          if t \<noteq> 0 \<and> truthy (serverURL st)
          then (let elapsed = now - t in
                if elapsed > HEARTBEAT_TIMEOUT then disconnect ''heartbeat_timeout'' st
                else (st, []))
          else (st, []))"

type_synonym served = "state \<times> effect list \<times> response"

definition to_window :: "state \<Rightarrow> effect \<Rightarrow> effect list" where
  \<comment> \<open>\<^verbatim>\<open>if (mainWindow) { ... }\<close> around one call on the window\<close>
  "to_window st eff = (if mainWindow st then [eff] else [])"

text \<open>
  The \<^verbatim>\<open>try\<close> block of the listener that \<^verbatim>\<open>startLocalServer\<close> gives to
  \<^verbatim>\<open>http.createServer\<close>. It has the routes of the library's handler, written out
  again, with the calls on the window in the place of the callbacks.
\<close>

definition server_routes :: "int \<Rightarrow> state \<Rightarrow> request \<Rightarrow> (string \<times> string) list \<Rightarrow> exn + served" where
  "server_routes now st req hs =
     (let url = req_url req; method = req_method req in
      if url = ''/ptt/press'' \<and> method = ''POST'' then
        (if mainWindow st \<and> \<not> isPTTPressed st
         then Inr (st\<lparr>isPTTPressed := True\<rparr>, [send ''ptt:press'' []], sendJSON hs 200 success)
         else Inr (st, [], sendJSON hs 200 success))
      else if url = ''/ptt/release'' \<and> method = ''POST'' then
        (if mainWindow st \<and> isPTTPressed st
         then Inr (st\<lparr>isPTTPressed := False\<rparr>, [send ''ptt:release'' []], sendJSON hs 200 success)
         else Inr (st, [], sendJSON hs 200 success))
      else if url = ''/status'' \<and> method = ''GET'' then
        Inr (st, [], sendJSON hs 200 (status_body st))
      else if url = ''/connect'' \<and> method = ''POST'' then
        bind_exn (parseJSONBody (req_body req)) (\<lambda>data.
        bind_exn (getp data ''url'') (\<lambda>u.
          if truthy u
          then Inr (st\<lparr>serverURL := u, lastHeartbeat := Some now\<rparr>, to_window st (loadURL u),
                    sendJSON hs 200 (JObj [(''success'', JBool True), (''url'', u)]))
          else Inr (st, [], sendJSON hs 400 (error_body ''Missing url parameter''))))
      else if url = ''/disconnect'' \<and> method = ''POST'' then
        (case disconnect ''manual'' st of (st', effs) \<Rightarrow> Inr (st', effs, sendJSON hs 200 success))
      else if url = ''/heartbeat'' \<and> method = ''POST'' then
        Inr (st\<lparr>lastHeartbeat := Some now\<rparr>, [], sendJSON hs 200 success)
      else if url = ''/frequency'' \<and> method = ''POST'' then
        bind_exn (parseJSONBody (req_body req)) (\<lambda>data.
        bind_exn (getp data ''frequency'') (\<lambda>f.
          if f \<noteq> Undefined
          then bind_exn (frequencyToString f) (\<lambda>frequency.
                 Inr (st, to_window st (send ''frequency:change'' [JStr frequency]),
                      sendJSON hs 200
                        (JObj [(''success'', JBool True), (''frequency'', JStr frequency)])))
          else Inr (st, [], sendJSON hs 400 (error_body ''Missing frequency parameter''))))
      else if url = ''/frequencies'' \<and> method = ''POST'' then
        bind_exn (parseJSONBody (req_body req)) (\<lambda>data.
        bind_exn (getp data ''frequencies'') (\<lambda>fs.
          if \<not> isArray fs
          then Inr (st, [], sendJSON hs 400 (error_body ''frequencies must be an array''))
          else bind_exn (isValidFrequenciesArray fs) (\<lambda>valid.
            if \<not> valid
            then Inr (st, [], sendJSON hs 400 (error_body
                   ''Invalid frequency format. Expected: [{frequency: number, earSide: 0|1|2}]''))
            else bind_exn (map_exn withString (elements fs)) (\<lambda>frequenciesWithStrings.
              Inr (st,
                   to_window st (send ''frequencies:update'' [JArr frequenciesWithStrings]),
                   sendJSON hs 200
                     (JObj [(''success'', JBool True),
                            (''count'',
                               JNum (number_of_nat (length frequenciesWithStrings) 0))]))))))
      else if url = ''/active-channel'' \<and> method = ''POST'' then
        bind_exn (parseJSONBody (req_body req)) (\<lambda>data.
        bind_exn (getp data ''frequency'') (\<lambda>f.
          if typeof f \<noteq> ''number''
          then Inr (st, [], sendJSON hs 400 (error_body ''frequency must be a number''))
          else bind_exn (frequencyToString f) (\<lambda>frequencyStr.
            Inr (st, to_window st (send ''active-channel:change'' [JStr frequencyStr]),
                 sendJSON hs 200
                   (JObj [(''success'', JBool True), (''frequency'', JStr frequencyStr)])))))
      else if url = ''/ear-side'' \<and> method = ''POST'' then
        bind_exn (parseJSONBody (req_body req)) (\<lambda>data.
        bind_exn (getp data ''frequency'') (\<lambda>f.
          if typeof f \<noteq> ''number''
          then Inr (st, [], sendJSON hs 400 (error_body ''frequency and earSide must be numbers''))
          else bind_exn (getp data ''earSide'') (\<lambda>side.
            if typeof side \<noteq> ''number''
            then Inr (st, [],
                   sendJSON hs 400 (error_body ''frequency and earSide must be numbers''))
            else if \<not> array_includes ear_sides side
            then Inr (st, [], sendJSON hs 400 (error_body
                   ''earSide must be 0 (left), 1 (right), or 2 (both)''))
            else bind_exn (frequencyToString f) (\<lambda>frequencyStr.
              Inr (st,
                   to_window st (send ''ear-side:change''
                     [JObj [(''frequency'', JStr frequencyStr), (''earSide'', side)]]),
                   sendJSON hs 200
                     (JObj [(''success'', JBool True), (''frequency'', JStr frequencyStr),
                            (''earSide'', side)]))))))
      else if url = ''/frequency/disconnect'' \<and> method = ''POST'' then
        bind_exn (parseJSONBody (req_body req)) (\<lambda>data.
        bind_exn (getp data ''frequency'') (\<lambda>f.
          if typeof f \<noteq> ''number''
          then Inr (st, [], sendJSON hs 400 (error_body ''frequency must be a number''))
          else bind_exn (frequencyToString f) (\<lambda>frequencyStr.
            Inr (st, to_window st (send ''frequency:disconnect'' [JStr frequencyStr]),
                 sendJSON hs 200
                   (JObj [(''success'', JBool True), (''frequency'', JStr frequencyStr)])))))
      else Inr (st, [], sendJSON hs 404 (error_body ''Not found'')))"

definition startLocalServer :: "int \<Rightarrow> state \<Rightarrow> request \<Rightarrow> served" where
  "startLocalServer now st req =
     (let hs = setCORSHeaders (req_origin req) in
      if req_method req = ''OPTIONS'' then (st, [], preflight hs)
      else case server_routes now st req hs of
        Inr done \<Rightarrow> done
      | Inl err \<Rightarrow> (st, [], sendJSON hs 400 (error_body ''Invalid JSON'')))"

text \<open>
  \<^verbatim>\<open>createWindow\<close> makes the window and loads a page into it; the window's
  \<^verbatim>\<open>closed\<close> event sets \<^verbatim>\<open>mainWindow\<close> back to \<^verbatim>\<open>null\<close>.
\<close>

definition createWindow :: "bool \<Rightarrow> state \<Rightarrow> state \<times> effect list" where
  "createWindow isDev st =
     (st\<lparr>mainWindow := True\<rparr>,
      [if isDev then loadURL (JStr ''http://localhost:3001'')
       else if truthy (serverURL st) then loadURL (serverURL st)
       else loadFile ''waiting.html''])"

definition closed :: "state \<Rightarrow> state" where
  "closed st = st\<lparr>mainWindow := False\<rparr>"

subsection \<open>Runs of the main process\<close>

text \<open>
  What happens to the session state of \<^verbatim>\<open>main.cjs\<close> after start-up: a request is
  served, the heartbeat timer fires, a window is created, the window is closed. Each
  of the first two comes with the clock reading at that moment.
\<close>

datatype event =
    Request int request
  | HeartbeatTick int
  | WindowCreated bool
  | WindowClosed

fun step :: "event \<Rightarrow> state \<Rightarrow> state" where
  "step (Request now req) st = fst (startLocalServer now st req)"
| "step (HeartbeatTick now) st = fst (heartbeatCheck now st)"
| "step (WindowCreated isDev) st = fst (createWindow isDev st)"
| "step WindowClosed st = closed st"

fun run :: "event list \<Rightarrow> state \<Rightarrow> state" where
  "run [] st = st"
| "run (ev # evs) st = run evs (step ev st)"

text \<open>\<^verbatim>\<open>Date.now()\<close> counts milliseconds from 1970: its readings are positive.\<close>

fun clock_ok :: "event \<Rightarrow> bool" where
  "clock_ok (Request now req) = (0 < now)"
| "clock_ok (HeartbeatTick now) = (0 < now)"
| "clock_ok ev = True"

text \<open>A sequence of requests served by the library's handler on one state object.\<close>

fun serve :: "(int \<times> request) list \<Rightarrow> state \<Rightarrow> state" where
  "serve [] st = st"
| "serve ((now, req) # rs) st = serve rs (fst (createRequestHandler now st req))"

subsection \<open>Reading what a handler did\<close>

definition new_state :: "state \<times> 'e list \<times> response \<Rightarrow> state" where
  "new_state h = fst h"

definition emitted :: "state \<times> 'e list \<times> response \<Rightarrow> 'e list" where
  "emitted h = fst (snd h)"

definition reply :: "state \<times> 'e list \<times> response \<Rightarrow> response" where
  "reply h = snd (snd h)"

definition answers :: "response \<Rightarrow> nat \<Rightarrow> jsval \<Rightarrow> bool" where
  \<comment> \<open>the response has this status code and this JSON body\<close>
  "answers r code body = (statusCode r = code \<and> payload r = Some body)"

definition is_post :: "request \<Rightarrow> string \<Rightarrow> bool" where
  "is_post req path = (req_method req = ''POST'' \<and> req_url req = path)"

definition post :: "string \<Rightarrow> raw_body \<Rightarrow> request" where
  \<comment> \<open>a POST request with no Origin header\<close>
  "post path b = \<lparr>req_method = ''POST'', req_url = path, req_origin = None, req_body = b\<rparr>"

text \<open>
  The route table of the specification (section 4.4), the routes among them that read
  a body, and the messages of the validation errors.
\<close>

definition route_table :: "(string \<times> string) list" where
  "route_table =
     [(''POST'', ''/ptt/press''), (''POST'', ''/ptt/release''), (''GET'', ''/status''),
      (''POST'', ''/connect''), (''POST'', ''/disconnect''), (''POST'', ''/heartbeat''),
      (''POST'', ''/frequency''), (''POST'', ''/frequencies''),
      (''POST'', ''/active-channel''), (''POST'', ''/ear-side''),
      (''POST'', ''/frequency/disconnect'')]"

definition body_routes :: "(string \<times> string) list" where
  "body_routes =
     [(''POST'', ''/connect''), (''POST'', ''/frequency''), (''POST'', ''/frequencies''),
      (''POST'', ''/active-channel''), (''POST'', ''/ear-side''),
      (''POST'', ''/frequency/disconnect'')]"

definition validation_messages :: "string list" where
  "validation_messages =
     [''Missing url parameter'', ''Missing frequency parameter'',
      ''frequencies must be an array'',
      ''Invalid frequency format. Expected: [{frequency: number, earSide: 0|1|2}]'',
      ''frequency must be a number'', ''frequency and earSide must be numbers'',
      ''earSide must be 0 (left), 1 (right), or 2 (both)'']"

text \<open>
  The validation failures of the specification's route table, for a body that is an
  object with the properties \<open>fs\<close>: which message, if any, the table gives for the
  route with this path. \<open>field fs k\<close> is the value of the property \<open>k\<close>,
  \<^verbatim>\<open>undefined\<close> when there is none.
\<close>

definition field :: "(string \<times> jsval) list \<Rightarrow> string \<Rightarrow> jsval" where
  "field fs k = (case map_of fs k of None \<Rightarrow> Undefined | Some v \<Rightarrow> v)"

fun is_number :: "jsval \<Rightarrow> bool" where
  "is_number (JNum x) = True"
| "is_number v = False"

definition is_ear_side :: "jsval \<Rightarrow> bool" where
  "is_ear_side v =
     (v \<in> set [JNum (Zero False), JNum (Zero True), JNum (Num False 1 0), JNum (Num False 2 0)])"

fun valid_descriptor :: "jsval \<Rightarrow> bool" where
  "valid_descriptor (JObj fs) = (is_number (field fs ''frequency'') \<and> is_ear_side (field fs ''earSide''))"
| "valid_descriptor v = False"

definition spec_validation_failure :: "string \<Rightarrow> (string \<times> jsval) list \<Rightarrow> string option" where
  "spec_validation_failure path fs =
     (if path = ''/connect'' then
        (if field fs ''url'' = Undefined then Some ''Missing url parameter'' else None)
      else if path = ''/frequency'' then
        (if field fs ''frequency'' = Undefined then Some ''Missing frequency parameter'' else None)
      else if path = ''/frequencies'' then
        (if \<not> isArray (field fs ''frequencies'') then Some ''frequencies must be an array''
         else if \<not> list_all valid_descriptor (elements (field fs ''frequencies''))
         then Some ''Invalid frequency format. Expected: [{frequency: number, earSide: 0|1|2}]''
         else None)
      else if path = ''/active-channel'' \<or> path = ''/frequency/disconnect'' then
        (if \<not> is_number (field fs ''frequency'') then Some ''frequency must be a number'' else None)
      else if path = ''/ear-side'' then
        (if \<not> is_number (field fs ''frequency'') \<or> \<not> is_number (field fs ''earSide'')
         then Some ''frequency and earSide must be numbers''
         else if \<not> is_ear_side (field fs ''earSide'')
         then Some ''earSide must be 0 (left), 1 (right), or 2 (both)''
         else None)
      else None)"

text \<open>
  A response is well answered when its status is 200, 400 or 404 and, if it is 400,
  its body is an error object with one of the handler's messages. \<open>on_result P\<close>
  says that \<open>P\<close> holds of what a \<^verbatim>\<open>try\<close> block did, if it ended normally.
\<close>

definition well_answered :: "response \<Rightarrow> bool" where
  "well_answered r = (statusCode r \<in> {200, 400, 404}
     \<and> (statusCode r = 400 \<longrightarrow> (\<exists>m \<in> set (''Invalid JSON'' # validation_messages). payload r = Some (error_body m))))"

definition on_result ::
  "(state \<times> 'e list \<times> response \<Rightarrow> bool) \<Rightarrow> exn + state \<times> 'e list \<times> response \<Rightarrow> bool" where
  "on_result P x = (case x of Inl err \<Rightarrow> True | Inr h \<Rightarrow> P h)"

text \<open>
  Two properties of a session state: the server URL is \<^verbatim>\<open>null\<close> or truthy, and the
  last heartbeat, if there is one, is a positive clock reading.
\<close>

definition url_ok :: "state \<Rightarrow> bool" where
  "url_ok st = (serverURL st = Null \<or> truthy (serverURL st))"

definition hb_ok :: "state \<Rightarrow> bool" where
  "hb_ok st = (\<forall>t. lastHeartbeat st = Some t \<longrightarrow> 0 < t)"

section \<open>Lemmas on the two handlers\<close>

subsection \<open>The validators\<close>

lemma typeof_number: "(typeof v = ''number'') = (\<exists>x. v = JNum x)"
  by (cases v) auto

lemma includes_ear_sides:
  "list_ex (same_value_zero e) ear_sides =
     (e \<in> {Zero False, Zero True, Num False 1 0, Num False 2 0})"
  by (cases e) (auto simp: ear_sides_def)

lemma isValidFrequency_shape:
  "isValidFrequency v =
     Inr (\<exists>fs f e. v = JObj fs \<and> map_of fs ''frequency'' = Some (JNum f)
            \<and> map_of fs ''earSide'' = Some (JNum e)
            \<and> e \<in> {Zero False, Zero True, Num False 1 0, Num False 2 0})"
proof (cases v)
  case (JObj fs)
  show ?thesis
    unfolding JObj isValidFrequency_def
    by (auto simp: typeof_number includes_ear_sides simp del: One_nat_def
          split: option.splits)
qed (simp_all add: isValidFrequency_def)

lemma every_all:
  "(\<And>x. x \<in> set xs \<Longrightarrow> \<exists>b. p x = Inr b) \<Longrightarrow>
     every p xs = Inr (\<forall>x\<in>set xs. p x = Inr True)"
proof (induction xs)
  case Nil
  show ?case by simp
next
  case (Cons a xs)
  from Cons.prems obtain b where b: "p a = Inr b" by auto
  from Cons.prems have "\<And>x. x \<in> set xs \<Longrightarrow> \<exists>b. p x = Inr b" by simp
  with Cons.IH have "every p xs = Inr (\<forall>x\<in>set xs. p x = Inr True)" by blast
  with b show ?case by auto
qed

lemma isValidFrequenciesArray_shape:
  "isValidFrequenciesArray v =
     Inr (\<exists>xs. v = JArr xs \<and> (\<forall>x\<in>set xs. isValidFrequency x = Inr True))"
proof (cases v)
  case (JArr xs)
  have "every isValidFrequency xs = Inr (\<forall>x\<in>set xs. isValidFrequency x = Inr True)"
    by (rule every_all) (simp add: isValidFrequency_shape)
  then show ?thesis using JArr by simp
qed simp_all

subsection \<open>Responses and sample requests\<close>

lemma answers_sendJSON:
  "answers (sendJSON hs code body) code' body' = (code = code' \<and> body = body')"
  by (auto simp: answers_def sendJSON_def)

lemma sendJSON_fields: "statusCode (sendJSON hs code body) = code" "payload (sendJSON hs code body) = Some body"
  by (simp_all add: sendJSON_def)

lemma error_body_inj: "(error_body a = error_body b) = (a = b)"
  by (simp add: error_body_def)

lemma bind_exn_Inr: "(bind_exn m f = Inr y) = (\<exists>v. m = Inr v \<and> f v = Inr y)"
  by (cases m) auto

lemma is_post_post: "is_post (post path b) path' = (path = path')"
  by (auto simp: is_post_def post_def)

lemma post_fields:
  "req_method (post path b) = ''POST''" "req_url (post path b) = path"
  "req_origin (post path b) = None" "req_body (post path b) = b"
  by (simp_all add: post_def)

lemma falsy: "(\<not> truthy u) = (u \<in> {Undefined, Null, JBool False, JStr [], JNum NaN, JNum (Zero False), JNum (Zero True)})"
  by (induction u rule: truthy.induct) auto

lemma status_fields:
  "getp (status_body st) ''status'' = Inr (JStr (getConnectionStatus (serverURL st) (mainWindow st)))"
  "getp (status_body st) ''connected'' = Inr (JBool (serverURL st \<noteq> Null))"
  by (simp_all add: status_body_def)

subsection \<open>Route by route\<close>

lemma lib_press:
  "is_post p ''/ptt/press'' \<Longrightarrow>
   createRequestHandler t st p =
     (if mainWindow st \<and> \<not> isPTTPressed st
      then (st\<lparr>isPTTPressed := True\<rparr>, [onPTTPress],
            sendJSON (setCORSHeaders (req_origin p)) 200 success)
      else (st, [], sendJSON (setCORSHeaders (req_origin p)) 200 success))"
  by (simp add: is_post_def createRequestHandler_def routes_def Let_def)

lemma lib_release:
  "is_post p ''/ptt/release'' \<Longrightarrow>
   createRequestHandler t st p =
     (if mainWindow st \<and> isPTTPressed st
      then (st\<lparr>isPTTPressed := False\<rparr>, [onPTTRelease],
            sendJSON (setCORSHeaders (req_origin p)) 200 success)
      else (st, [], sendJSON (setCORSHeaders (req_origin p)) 200 success))"
  by (simp add: is_post_def createRequestHandler_def routes_def Let_def)

lemma main_press:
  "is_post p ''/ptt/press'' \<Longrightarrow>
   startLocalServer t st p =
     (if mainWindow st \<and> \<not> isPTTPressed st
      then (st\<lparr>isPTTPressed := True\<rparr>, [send ''ptt:press'' []],
            sendJSON (setCORSHeaders (req_origin p)) 200 success)
      else (st, [], sendJSON (setCORSHeaders (req_origin p)) 200 success))"
  by (simp add: is_post_def startLocalServer_def server_routes_def Let_def)

lemma main_release:
  "is_post p ''/ptt/release'' \<Longrightarrow>
   startLocalServer t st p =
     (if mainWindow st \<and> isPTTPressed st
      then (st\<lparr>isPTTPressed := False\<rparr>, [send ''ptt:release'' []],
            sendJSON (setCORSHeaders (req_origin p)) 200 success)
      else (st, [], sendJSON (setCORSHeaders (req_origin p)) 200 success))"
  by (simp add: is_post_def startLocalServer_def server_routes_def Let_def)

lemma lib_status:
  "req_method req = ''GET'' \<Longrightarrow> req_url req = ''/status'' \<Longrightarrow>
   createRequestHandler now st req = (st, [], sendJSON (setCORSHeaders (req_origin req)) 200 (status_body st))"
  by (simp add: createRequestHandler_def routes_def Let_def)

lemma main_status:
  "req_method req = ''GET'' \<Longrightarrow> req_url req = ''/status'' \<Longrightarrow>
   startLocalServer now st req = (st, [], sendJSON (setCORSHeaders (req_origin req)) 200 (status_body st))"
  by (simp add: startLocalServer_def server_routes_def Let_def)

lemma lib_connect:
  "is_post req ''/connect'' \<Longrightarrow>
   createRequestHandler now st req =
     (case bind_exn (parseJSONBody (req_body req)) (\<lambda>data. getp data ''url'') of
        Inl err \<Rightarrow> (st, [], sendJSON (setCORSHeaders (req_origin req)) 400 (error_body ''Invalid JSON''))
      | Inr u \<Rightarrow>
          if truthy u
          then (st\<lparr>serverURL := u, lastHeartbeat := Some now\<rparr>, [onConnect u],
                sendJSON (setCORSHeaders (req_origin req)) 200
                  (JObj [(''success'', JBool True), (''url'', u)]))
          else (st, [], sendJSON (setCORSHeaders (req_origin req)) 400
                  (error_body ''Missing url parameter'')))"
  by (cases "parseJSONBody (req_body req)"; cases "bind_exn (parseJSONBody (req_body req)) (\<lambda>data. getp data ''url'')")
     (auto simp: is_post_def createRequestHandler_def routes_def Let_def)

lemma main_connect:
  "is_post req ''/connect'' \<Longrightarrow>
   startLocalServer now st req =
     (case bind_exn (parseJSONBody (req_body req)) (\<lambda>data. getp data ''url'') of
        Inl err \<Rightarrow> (st, [], sendJSON (setCORSHeaders (req_origin req)) 400 (error_body ''Invalid JSON''))
      | Inr u \<Rightarrow>
          if truthy u
          then (st\<lparr>serverURL := u, lastHeartbeat := Some now\<rparr>, to_window st (loadURL u),
                sendJSON (setCORSHeaders (req_origin req)) 200
                  (JObj [(''success'', JBool True), (''url'', u)]))
          else (st, [], sendJSON (setCORSHeaders (req_origin req)) 400
                  (error_body ''Missing url parameter'')))"
  by (cases "parseJSONBody (req_body req)"; cases "bind_exn (parseJSONBody (req_body req)) (\<lambda>data. getp data ''url'')")
     (auto simp: is_post_def startLocalServer_def server_routes_def Let_def)

lemma main_disconnect:
  "is_post d ''/disconnect'' \<Longrightarrow>
   startLocalServer now st d =
     (fst (disconnect ''manual'' st), snd (disconnect ''manual'' st),
      sendJSON (setCORSHeaders (req_origin d)) 200 success)"
  by (simp add: is_post_def startLocalServer_def server_routes_def Let_def split: prod.splits)

lemma lib_heartbeat:
  "is_post hb ''/heartbeat'' \<Longrightarrow>
   createRequestHandler t st hb =
     (st\<lparr>lastHeartbeat := Some t\<rparr>, [], sendJSON (setCORSHeaders (req_origin hb)) 200 success)"
  by (simp add: is_post_def createRequestHandler_def routes_def Let_def)

lemma main_heartbeat:
  "is_post hb ''/heartbeat'' \<Longrightarrow>
   startLocalServer t st hb =
     (st\<lparr>lastHeartbeat := Some t\<rparr>, [], sendJSON (setCORSHeaders (req_origin hb)) 200 success)"
  by (simp add: is_post_def startLocalServer_def server_routes_def Let_def)

lemma lib_unknown:
  assumes "req_method req \<noteq> ''OPTIONS''" "(req_method req, req_url req) \<notin> set route_table"
  shows "createRequestHandler now st req = (st, [], sendJSON (setCORSHeaders (req_origin req)) 404 (error_body ''Not found''))"
proof (cases "req_method req = ''POST''")
  case True
  with assms show ?thesis
    by (simp add: route_table_def createRequestHandler_def routes_def Let_def)
next
  case False
  with assms show ?thesis
    by (cases "req_method req = ''GET''") (simp_all add: route_table_def createRequestHandler_def routes_def Let_def)
qed

lemma main_unknown:
  assumes "req_method req \<noteq> ''OPTIONS''" "(req_method req, req_url req) \<notin> set route_table"
  shows "startLocalServer now st req = (st, [], sendJSON (setCORSHeaders (req_origin req)) 404 (error_body ''Not found''))"
proof (cases "req_method req = ''POST''")
  case True
  with assms show ?thesis
    by (simp add: route_table_def startLocalServer_def server_routes_def Let_def)
next
  case False
  with assms show ?thesis
    by (cases "req_method req = ''GET''") (simp_all add: route_table_def startLocalServer_def server_routes_def Let_def)
qed

lemma lib_unparsed:
  assumes "(req_method req, req_url req) \<in> set body_routes" "parseJSONBody (req_body req) = Inl err"
  shows "createRequestHandler now st req = (st, [], sendJSON (setCORSHeaders (req_origin req)) 400 (error_body ''Invalid JSON''))"
  using assms unfolding body_routes_def
  by (auto simp: createRequestHandler_def routes_def Let_def)

lemma main_unparsed:
  assumes "(req_method req, req_url req) \<in> set body_routes" "parseJSONBody (req_body req) = Inl err"
  shows "startLocalServer now st req = (st, [], sendJSON (setCORSHeaders (req_origin req)) 400 (error_body ''Invalid JSON''))"
  using assms unfolding body_routes_def
  by (auto simp: startLocalServer_def server_routes_def Let_def)

lemma options_preflight: "req_method req = ''OPTIONS'' \<Longrightarrow> 
   createRequestHandler now st req = (st, [], preflight (setCORSHeaders (req_origin req)))
   \<and> startLocalServer now st req = (st, [], preflight (setCORSHeaders (req_origin req)))"
  by (simp add: createRequestHandler_def startLocalServer_def)

lemma lib_caught:
  "req_method req \<noteq> ''OPTIONS'' \<Longrightarrow>
   routes now st req (setCORSHeaders (req_origin req)) = Inl err \<Longrightarrow>
   createRequestHandler now st req =
     (st, [], sendJSON (setCORSHeaders (req_origin req)) 400 (error_body ''Invalid JSON''))"
  by (simp add: createRequestHandler_def)

lemma main_caught:
  "req_method req \<noteq> ''OPTIONS'' \<Longrightarrow>
   server_routes now st req (setCORSHeaders (req_origin req)) = Inl err \<Longrightarrow>
   startLocalServer now st req =
     (st, [], sendJSON (setCORSHeaders (req_origin req)) 400 (error_body ''Invalid JSON''))"
  by (simp add: startLocalServer_def)

lemma lib_empty_body:
  assumes "req_method req = ''POST''" and "req_body req = Empty"
    and "(req_url req, msg) \<in> set
      [(''/connect'', ''Missing url parameter''),
       (''/frequency'', ''Missing frequency parameter''),
       (''/frequencies'', ''frequencies must be an array''),
       (''/active-channel'', ''frequency must be a number''),
       (''/ear-side'', ''frequency and earSide must be numbers''),
       (''/frequency/disconnect'', ''frequency must be a number'')]"
  shows "createRequestHandler now st req =
     (st, [], sendJSON (setCORSHeaders (req_origin req)) 400 (error_body msg))"
  using assms by (auto simp: createRequestHandler_def routes_def Let_def)

lemma main_empty_body:
  assumes "req_method req = ''POST''" and "req_body req = Empty"
    and "(req_url req, msg) \<in> set
      [(''/connect'', ''Missing url parameter''),
       (''/frequency'', ''Missing frequency parameter''),
       (''/frequencies'', ''frequencies must be an array''),
       (''/active-channel'', ''frequency must be a number''),
       (''/ear-side'', ''frequency and earSide must be numbers''),
       (''/frequency/disconnect'', ''frequency must be a number'')]"
  shows "startLocalServer now st req =
     (st, [], sendJSON (setCORSHeaders (req_origin req)) 400 (error_body msg))"
  using assms by (auto simp: startLocalServer_def server_routes_def Let_def)

subsection \<open>Validation failures\<close>

lemma typeof_is_number: "(typeof v = ''number'') = is_number v"
  by (cases v) auto

lemma ear_side_number: "is_ear_side v \<Longrightarrow> is_number v"
  by (auto simp: is_ear_side_def)

lemma includes_is_ear_side: "array_includes ear_sides v = is_ear_side v"
proof (cases v)
  case (JNum e)
  then show ?thesis using includes_ear_sides [of e] by (auto simp: is_ear_side_def)
qed (simp_all add: is_ear_side_def)

lemma getp_field: "getp (JObj fs) k = Inr (field fs k)"
  by (simp add: field_def)

lemma isValidFrequency_descriptor: "isValidFrequency v = Inr (valid_descriptor v)"
proof (cases v)
  case (JObj fs)
  show ?thesis unfolding JObj isValidFrequency_def getp_field typeof_is_number includes_is_ear_side
    by (auto dest: ear_side_number)
qed (simp_all add: isValidFrequency_def)

lemma every_descriptor: "every isValidFrequency xs = Inr (list_all valid_descriptor xs)"
  by (induction xs) (simp_all add: isValidFrequency_descriptor)

lemma valid_array: "isArray v \<Longrightarrow> isValidFrequenciesArray v = Inr (list_all valid_descriptor (elements v))"
  by (cases v) (simp_all add: every_descriptor)



lemma lib_refuse_connect:
  assumes "req_method req = ''POST''" and "req_url req = ''/connect''"
    and "parseJSONBody (req_body req) = Inr (JObj fs)" and "field fs ''url'' = Undefined"
  shows "createRequestHandler now st req =
     (st, [], sendJSON (setCORSHeaders (req_origin req)) 400 (error_body ''Missing url parameter''))"
  using assms by (simp add: createRequestHandler_def routes_def Let_def getp_field del: getp.simps)

lemma lib_refuse_frequency:
  assumes "req_method req = ''POST''" and "req_url req = ''/frequency''"
    and "parseJSONBody (req_body req) = Inr (JObj fs)" and "field fs ''frequency'' = Undefined"
  shows "createRequestHandler now st req =
     (st, [], sendJSON (setCORSHeaders (req_origin req)) 400
        (error_body ''Missing frequency parameter''))"
  using assms by (simp add: createRequestHandler_def routes_def Let_def getp_field del: getp.simps)

lemma lib_refuse_frequencies:
  assumes "req_method req = ''POST''" and "req_url req = ''/frequencies''"
    and "parseJSONBody (req_body req) = Inr (JObj fs)"
  shows "\<not> isArray (field fs ''frequencies'') \<Longrightarrow>
     createRequestHandler now st req =
       (st, [], sendJSON (setCORSHeaders (req_origin req)) 400
          (error_body ''frequencies must be an array''))"
    and "isArray (field fs ''frequencies'') \<Longrightarrow>
     \<not> list_all valid_descriptor (elements (field fs ''frequencies'')) \<Longrightarrow>
     createRequestHandler now st req =
       (st, [], sendJSON (setCORSHeaders (req_origin req)) 400
          (error_body ''Invalid frequency format. Expected: [{frequency: number, earSide: 0|1|2}]''))"
  using assms by (simp_all add: createRequestHandler_def routes_def Let_def getp_field valid_array del: getp.simps)

lemma lib_refuse_number:
  assumes "req_method req = ''POST''"
    and "req_url req = ''/active-channel'' \<or> req_url req = ''/frequency/disconnect''"
    and "parseJSONBody (req_body req) = Inr (JObj fs)"
    and "\<not> is_number (field fs ''frequency'')"
  shows "createRequestHandler now st req =
     (st, [], sendJSON (setCORSHeaders (req_origin req)) 400
        (error_body ''frequency must be a number''))"
  using assms
  by (auto simp add: createRequestHandler_def routes_def Let_def getp_field typeof_is_number simp del: getp.simps)

lemma lib_refuse_ear_side:
  assumes "req_method req = ''POST''" and "req_url req = ''/ear-side''"
    and "parseJSONBody (req_body req) = Inr (JObj fs)"
  shows "\<not> is_number (field fs ''frequency'') \<or> \<not> is_number (field fs ''earSide'') \<Longrightarrow>
     createRequestHandler now st req =
       (st, [], sendJSON (setCORSHeaders (req_origin req)) 400
          (error_body ''frequency and earSide must be numbers''))"
    and "is_number (field fs ''frequency'') \<Longrightarrow> is_number (field fs ''earSide'') \<Longrightarrow>
     \<not> is_ear_side (field fs ''earSide'') \<Longrightarrow>
     createRequestHandler now st req =
       (st, [], sendJSON (setCORSHeaders (req_origin req)) 400
          (error_body ''earSide must be 0 (left), 1 (right), or 2 (both)''))"
  using assms
  by (auto simp add: createRequestHandler_def routes_def Let_def getp_field typeof_is_number includes_is_ear_side
        simp del: getp.simps)

lemma main_refuse_connect:
  assumes "req_method req = ''POST''" and "req_url req = ''/connect''"
    and "parseJSONBody (req_body req) = Inr (JObj fs)" and "field fs ''url'' = Undefined"
  shows "startLocalServer now st req =
     (st, [], sendJSON (setCORSHeaders (req_origin req)) 400 (error_body ''Missing url parameter''))"
  using assms by (simp add: startLocalServer_def server_routes_def Let_def getp_field del: getp.simps)

lemma main_refuse_frequency:
  assumes "req_method req = ''POST''" and "req_url req = ''/frequency''"
    and "parseJSONBody (req_body req) = Inr (JObj fs)" and "field fs ''frequency'' = Undefined"
  shows "startLocalServer now st req =
     (st, [], sendJSON (setCORSHeaders (req_origin req)) 400
        (error_body ''Missing frequency parameter''))"
  using assms by (simp add: startLocalServer_def server_routes_def Let_def getp_field del: getp.simps)

lemma main_refuse_frequencies:
  assumes "req_method req = ''POST''" and "req_url req = ''/frequencies''"
    and "parseJSONBody (req_body req) = Inr (JObj fs)"
  shows "\<not> isArray (field fs ''frequencies'') \<Longrightarrow>
     startLocalServer now st req =
       (st, [], sendJSON (setCORSHeaders (req_origin req)) 400
          (error_body ''frequencies must be an array''))"
    and "isArray (field fs ''frequencies'') \<Longrightarrow>
     \<not> list_all valid_descriptor (elements (field fs ''frequencies'')) \<Longrightarrow>
     startLocalServer now st req =
       (st, [], sendJSON (setCORSHeaders (req_origin req)) 400
          (error_body ''Invalid frequency format. Expected: [{frequency: number, earSide: 0|1|2}]''))"
  using assms by (simp_all add: startLocalServer_def server_routes_def Let_def getp_field valid_array del: getp.simps)

lemma main_refuse_number:
  assumes "req_method req = ''POST''"
    and "req_url req = ''/active-channel'' \<or> req_url req = ''/frequency/disconnect''"
    and "parseJSONBody (req_body req) = Inr (JObj fs)"
    and "\<not> is_number (field fs ''frequency'')"
  shows "startLocalServer now st req =
     (st, [], sendJSON (setCORSHeaders (req_origin req)) 400
        (error_body ''frequency must be a number''))"
  using assms
  by (auto simp add: startLocalServer_def server_routes_def Let_def getp_field typeof_is_number simp del: getp.simps)

lemma main_refuse_ear_side:
  assumes "req_method req = ''POST''" and "req_url req = ''/ear-side''"
    and "parseJSONBody (req_body req) = Inr (JObj fs)"
  shows "\<not> is_number (field fs ''frequency'') \<or> \<not> is_number (field fs ''earSide'') \<Longrightarrow>
     startLocalServer now st req =
       (st, [], sendJSON (setCORSHeaders (req_origin req)) 400
          (error_body ''frequency and earSide must be numbers''))"
    and "is_number (field fs ''frequency'') \<Longrightarrow> is_number (field fs ''earSide'') \<Longrightarrow>
     \<not> is_ear_side (field fs ''earSide'') \<Longrightarrow>
     startLocalServer now st req =
       (st, [], sendJSON (setCORSHeaders (req_origin req)) 400
          (error_body ''earSide must be 0 (left), 1 (right), or 2 (both)''))"
  using assms
  by (auto simp add: startLocalServer_def server_routes_def Let_def getp_field typeof_is_number includes_is_ear_side
        simp del: getp.simps)

lemma spec_failure_cases:
  assumes "spec_validation_failure path fs = Some msg"
  shows "(path = ''/connect'' \<and> field fs ''url'' = Undefined \<and> msg = ''Missing url parameter'')
    \<or> (path = ''/frequency'' \<and> field fs ''frequency'' = Undefined
         \<and> msg = ''Missing frequency parameter'')
    \<or> (path = ''/frequencies'' \<and> \<not> isArray (field fs ''frequencies'')
         \<and> msg = ''frequencies must be an array'')
    \<or> (path = ''/frequencies'' \<and> isArray (field fs ''frequencies'')
         \<and> \<not> list_all valid_descriptor (elements (field fs ''frequencies''))
         \<and> msg = ''Invalid frequency format. Expected: [{frequency: number, earSide: 0|1|2}]'')
    \<or> ((path = ''/active-channel'' \<or> path = ''/frequency/disconnect'')
         \<and> \<not> is_number (field fs ''frequency'') \<and> msg = ''frequency must be a number'')
    \<or> (path = ''/ear-side''
         \<and> (\<not> is_number (field fs ''frequency'') \<or> \<not> is_number (field fs ''earSide''))
         \<and> msg = ''frequency and earSide must be numbers'')
    \<or> (path = ''/ear-side'' \<and> is_number (field fs ''frequency'')
         \<and> is_number (field fs ''earSide'') \<and> \<not> is_ear_side (field fs ''earSide'')
         \<and> msg = ''earSide must be 0 (left), 1 (right), or 2 (both)'')"
proof (cases "path = ''/connect''")
  case True
  with assms show ?thesis by (simp add: spec_validation_failure_def split: if_splits)
next
  case c: False
  show ?thesis
  proof (cases "path = ''/frequency''")
    case True
    with assms show ?thesis by (simp add: spec_validation_failure_def split: if_splits)
  next
    case f: False
    show ?thesis
    proof (cases "path = ''/frequencies''")
      case True
      with assms show ?thesis by (simp add: spec_validation_failure_def split: if_splits)
    next
      case fs: False
      show ?thesis
      proof (cases "path = ''/active-channel'' \<or> path = ''/frequency/disconnect''")
        case True
        with assms c f fs show ?thesis
          by (simp add: spec_validation_failure_def split: if_splits)
      next
        case a: False
        show ?thesis
        proof (cases "path = ''/ear-side''")
          case True
          with assms show ?thesis
            by (simp add: spec_validation_failure_def split: if_splits)
        next
          case False
          with assms c f fs a show ?thesis by (simp add: spec_validation_failure_def)
        qed
      qed
    qed
  qed
qed

lemma lib_validation_failure:
  assumes "is_post req path" and "parseJSONBody (req_body req) = Inr (JObj fs)"
    and "spec_validation_failure path fs = Some msg"
  shows "createRequestHandler now st req =
     (st, [], sendJSON (setCORSHeaders (req_origin req)) 400 (error_body msg))"
proof -
  from assms(1) have m: "req_method req = ''POST''" and u: "req_url req = path"
    by (simp_all add: is_post_def)
  show ?thesis
    using spec_failure_cases [OF assms(3)]
    by (elim disjE conjE)
       (simp_all add: u lib_refuse_connect [OF m _ assms(2)]
          lib_refuse_frequency [OF m _ assms(2)] lib_refuse_frequencies [OF m _ assms(2)]
          lib_refuse_number [OF m _ assms(2)] lib_refuse_ear_side [OF m _ assms(2)])
qed

lemma main_validation_failure:
  assumes "is_post req path" and "parseJSONBody (req_body req) = Inr (JObj fs)"
    and "spec_validation_failure path fs = Some msg"
  shows "startLocalServer now st req =
     (st, [], sendJSON (setCORSHeaders (req_origin req)) 400 (error_body msg))"
proof -
  from assms(1) have m: "req_method req = ''POST''" and u: "req_url req = path"
    by (simp_all add: is_post_def)
  show ?thesis
    using spec_failure_cases [OF assms(3)]
    by (elim disjE conjE)
       (simp_all add: u main_refuse_connect [OF m _ assms(2)]
          main_refuse_frequency [OF m _ assms(2)] main_refuse_frequencies [OF m _ assms(2)]
          main_refuse_number [OF m _ assms(2)] main_refuse_ear_side [OF m _ assms(2)])
qed

subsection \<open>Disconnecting and the timer\<close>

lemma disconnect_state:
  "fst (disconnect reason st) =
     st\<lparr>isPTTPressed := isPTTPressed st \<and> \<not> mainWindow st, serverURL := Null, lastHeartbeat := None\<rparr>"
  by (cases st) (auto simp: disconnect_def Let_def)

lemma disconnect_effects:
  "snd (disconnect reason st) =
     [log_disconnect reason]
     @ (if isPTTPressed st \<and> mainWindow st then [send ''ptt:release'' []] else [])
     @ (if mainWindow st then [loadFile ''waiting.html''] else [])"
  by (simp add: disconnect_def Let_def)

lemma disconnect_pair:
  "disconnect reason st = (a, b) \<Longrightarrow>
     a = st\<lparr>isPTTPressed := isPTTPressed st \<and> \<not> mainWindow st, serverURL := Null, lastHeartbeat := None\<rparr>"
  using disconnect_state [of reason st] by simp

lemma disconnect_not_silent: "disconnect reason st \<noteq> (st', [])"
  using disconnect_effects [of reason st] by (cases "disconnect reason st") auto

lemma tick_cases:
  "heartbeatCheck now st = (st, []) \<or> heartbeatCheck now st = disconnect ''heartbeat_timeout'' st"
  by (auto simp: heartbeatCheck_def Let_def split: option.splits)

lemma tick_state:
  "fst (heartbeatCheck now st) = st \<or> fst (heartbeatCheck now st) = fst (disconnect ''heartbeat_timeout'' st)"
  by (auto simp: heartbeatCheck_def Let_def split: option.splits)

subsection \<open>What every route keeps\<close>

lemma wa_200: "well_answered (sendJSON hs 200 b)"
  by (simp add: well_answered_def sendJSON_fields)

lemma wa_404: "well_answered (sendJSON hs 404 b)"
  by (simp add: well_answered_def sendJSON_fields)

lemma wa_400: "m \<in> set (''Invalid JSON'' # validation_messages) \<Longrightarrow> well_answered (sendJSON hs 400 (error_body m))"
  by (auto simp add: well_answered_def sendJSON_fields)

lemma wa_pre: "well_answered (preflight hs)"
  by (simp add: well_answered_def preflight_def)

lemma on_bind: "(\<And>v. on_result P (f v)) \<Longrightarrow> on_result P (bind_exn m f)"
  by (cases m) (simp_all add: on_result_def)

lemma on_if: "(c \<Longrightarrow> on_result P a) \<Longrightarrow> (\<not> c \<Longrightarrow> on_result P b) \<Longrightarrow> on_result P (if c then a else b)"
  by simp

lemma on_Inr: "P h \<Longrightarrow> on_result P (Inr h)"
  by (simp add: on_result_def)

lemma on_prod: "(\<And>a b. p = (a, b) \<Longrightarrow> on_result P (f a b)) \<Longrightarrow> on_result P (case p of (a, b) \<Rightarrow> f a b)"
  by (cases p) simp

lemma routes_ok: "on_result (\<lambda>h. well_answered (reply h)) (routes now st req hs)"
  unfolding routes_def Let_def
  by (intro on_if on_bind on_Inr) (simp_all add: reply_def wa_200 wa_400 wa_404 validation_messages_def)

lemma server_routes_ok: "on_result (\<lambda>h. well_answered (reply h)) (server_routes now st req hs)"
  unfolding server_routes_def Let_def
  by (intro on_if on_bind on_prod on_Inr) (simp_all add: reply_def wa_200 wa_400 wa_404 validation_messages_def)

lemma lib_well_answered: "well_answered (reply (createRequestHandler now st req))"
  using routes_ok [of now st req "setCORSHeaders (req_origin req)"]
  by (auto simp: createRequestHandler_def Let_def reply_def wa_pre wa_400 on_result_def
        split: sum.splits)

lemma main_well_answered: "well_answered (reply (startLocalServer now st req))"
  using server_routes_ok [of now st req "setCORSHeaders (req_origin req)"]
  by (auto simp: startLocalServer_def Let_def reply_def wa_pre wa_400 on_result_def
        split: sum.splits)

lemma routes_url_ok: "url_ok st \<Longrightarrow> on_result (\<lambda>h. url_ok (new_state h)) (routes now st req hs)"
  unfolding routes_def Let_def
  by (intro on_if on_bind on_Inr) (simp_all add: new_state_def url_ok_def)

lemma server_routes_url_ok: "url_ok st \<Longrightarrow> on_result (\<lambda>h. url_ok (new_state h)) (server_routes now st req hs)"
  unfolding server_routes_def Let_def
  by (intro on_if on_bind on_prod on_Inr) (auto simp: new_state_def url_ok_def dest: disconnect_pair)

lemma server_routes_hb_ok: "0 < now \<Longrightarrow> hb_ok st \<Longrightarrow> on_result (\<lambda>h. hb_ok (new_state h)) (server_routes now st req hs)"
  unfolding server_routes_def Let_def
  by (intro on_if on_bind on_prod on_Inr) (auto simp: new_state_def hb_ok_def dest: disconnect_pair)

lemma lib_url_ok: "url_ok st \<Longrightarrow> url_ok (new_state (createRequestHandler now st req))"
  using routes_url_ok [of st now req "setCORSHeaders (req_origin req)"]
  by (auto simp: createRequestHandler_def Let_def new_state_def on_result_def split: sum.splits)

lemma main_url_ok: "url_ok st \<Longrightarrow> url_ok (new_state (startLocalServer now st req))"
  using server_routes_url_ok [of st now req "setCORSHeaders (req_origin req)"]
  by (auto simp: startLocalServer_def Let_def new_state_def on_result_def split: sum.splits)

lemma main_hb_ok: "0 < now \<Longrightarrow> hb_ok st \<Longrightarrow> hb_ok (new_state (startLocalServer now st req))"
  using server_routes_hb_ok [of now st req "setCORSHeaders (req_origin req)"]
  by (auto simp: startLocalServer_def Let_def new_state_def on_result_def split: sum.splits)

lemma step_url_ok: "url_ok st \<Longrightarrow> url_ok (step ev st)"
proof (cases ev)
  case (Request now req)
  assume "url_ok st"
  then show ?thesis using main_url_ok [of st now req] Request by (simp add: new_state_def)
next
  case (HeartbeatTick now)
  assume "url_ok st"
  then show ?thesis using tick_state [of now st] HeartbeatTick
    by (auto simp: disconnect_state url_ok_def)
qed (simp_all add: url_ok_def createWindow_def closed_def)

lemma step_hb_ok: "clock_ok ev \<Longrightarrow> hb_ok st \<Longrightarrow> hb_ok (step ev st)"
proof (cases ev)
  case (Request now req)
  assume "clock_ok ev" "hb_ok st"
  then show ?thesis using main_hb_ok [of now st req] Request by (simp add: new_state_def)
next
  case (HeartbeatTick now)
  assume "clock_ok ev" "hb_ok st"
  then show ?thesis using tick_state [of now st] HeartbeatTick
    by (auto simp: disconnect_state hb_ok_def)
qed (simp_all add: hb_ok_def createWindow_def closed_def)

lemma run_url_ok: "url_ok st \<Longrightarrow> url_ok (run evs st)"
  by (induction evs arbitrary: st) (simp_all add: step_url_ok)

lemma run_hb_ok: "list_all clock_ok evs \<Longrightarrow> hb_ok st \<Longrightarrow> hb_ok (run evs st)"
  by (induction evs arbitrary: st) (simp_all add: step_hb_ok)

lemma serve_url_ok: "url_ok st \<Longrightarrow> url_ok (serve rs st)"
proof (induction rs arbitrary: st)
  case Nil
  then show ?case by simp
next
  case (Cons a rs)
  obtain now req where a: "a = (now, req)" by (cases a)
  from Cons.prems have "url_ok (new_state (createRequestHandler now st req))" by (rule lib_url_ok)
  then have "url_ok (serve rs (fst (createRequestHandler now st req)))"
    using Cons.IH by (simp add: new_state_def)
  then show ?case by (simp add: a)
qed

lemma initial_ok: "url_ok initial_state" "hb_ok initial_state"
  by (simp_all add: url_ok_def hb_ok_def initial_state_def)

lemma url_ok_connected:
  "url_ok st \<Longrightarrow> (serverURL st \<noteq> Null) = (getConnectionStatus (serverURL st) (mainWindow st) = ''CONNECTED'')"
  by (auto simp: url_ok_def getConnectionStatus_def)

lemma tick_on_ok:
  assumes "url_ok st" "hb_ok st"
  shows "heartbeatCheck now st =
     (if serverURL st \<noteq> Null \<and> (\<exists>t. lastHeartbeat st = Some t \<and> HEARTBEAT_TIMEOUT < now - t)
      then disconnect ''heartbeat_timeout'' st else (st, []))"
  using assms by (auto simp: heartbeatCheck_def url_ok_def hb_ok_def Let_def split: option.splits)

section \<open>Validation, canonical strings and status\<close>

text \<open>
  C7. \<^verbatim>\<open>isValidFrequency\<close> never throws, and it returns true exactly on an object
  whose \<^verbatim>\<open>frequency\<close> property is a Number and whose \<^verbatim>\<open>earSide\<close> property is
  one of the Numbers 0 (of either sign), 1 and 2; on every other value, \<^verbatim>\<open>null\<close>,
  \<^verbatim>\<open>undefined\<close>, primitives and arrays among them, it returns false.
  \<^verbatim>\<open>isValidFrequenciesArray\<close> never throws either, and it returns true exactly on an
  array, the empty one included, whose elements all pass \<^verbatim>\<open>isValidFrequency\<close>.
\<close>

theorem frequency_validators:
  "isValidFrequency v =
     Inr (\<exists>fs f e. v = JObj fs \<and> map_of fs ''frequency'' = Some (JNum f)
            \<and> map_of fs ''earSide'' = Some (JNum e)
            \<and> e \<in> {Zero False, Zero True, Num False 1 0, Num False 2 0})
   \<and> isValidFrequenciesArray v =
     Inr (\<exists>xs. v = JArr xs \<and> (\<forall>x\<in>set xs. isValidFrequency x = Inr True))"
  using isValidFrequency_shape [of v] isValidFrequenciesArray_shape [of v] by simp

theorem frequency_validators_witness:
  "isValidFrequenciesArray
     (JArr [JObj [(''frequency'', JNum (Num False 453 (- 1))), (''earSide'', JNum (Zero False))],
            JObj [(''frequency'', JNum (Num False 1 2)), (''earSide'', JNum (Num False 1 0))]])
     = Inr True
   \<and> isValidFrequenciesArray (JArr []) = Inr True
   \<and> isValidFrequenciesArray (JObj []) = Inr False
   \<and> isValidFrequency
       (JObj [(''frequency'', JNum (Num False 453 (- 1))), (''earSide'', JNum (Num False 3 0))])
     = Inr False
   \<and> isValidFrequency Null = Inr False"
  using frequency_validators
    [of "JArr [JObj [(''frequency'', JNum (Num False 453 (- 1))), (''earSide'', JNum (Zero False))],
               JObj [(''frequency'', JNum (Num False 1 2)), (''earSide'', JNum (Num False 1 0))]]"]
    frequency_validators [of "JArr []"]
    frequency_validators [of "JObj []"]
    frequency_validators
    [of "JObj [(''frequency'', JNum (Num False 453 (- 1))), (''earSide'', JNum (Num False 3 0))]"]
    frequency_validators [of Null]
  by (simp add: isValidFrequency_def ear_sides_def del: One_nat_def)

lemma toString_45_3: "Number_toString (Num False 453 (- 1)) = ''45.3''"
  by code_simp

lemma toString_100: "Number_toString (Num False 1 2) = ''100''"
  by code_simp

lemma toString_small: "Number_toString (Num True 15 (- 8)) = ''-1.5e-7''"
  by code_simp

lemma digits_123456789: "digits 123456789 = [1, 2, 3, 4, 5, 6, 7, 8, 9]"
  by (simp add: digits.simps)

lemma toString_fraction: "Number_toString (Num False 123456789 (- 3)) = ''123456.789''"
  by (simp add: positive_toString_def decimal_def digits_123456789 digit_char_def)

lemma toString_large: "Number_toString (Num False 1 21) = ''1e+21''"
  by code_simp

text \<open>
  C8. On every Number \<^verbatim>\<open>frequencyToString\<close> returns, without throwing, the text that
  the default conversion \<^verbatim>\<open>Number::toString\<close> gives: \<^verbatim>\<open>"45.3"\<close> for 45.3,
  \<^verbatim>\<open>"100"\<close> for 100, \<^verbatim>\<open>"0"\<close> for 0, \<^verbatim>\<open>"NaN"\<close> for NaN and
  \<^verbatim>\<open>"Infinity"\<close> for positive infinity.
\<close>

theorem frequencyToString_numbers:
  "frequencyToString (JNum x) = Inr (Number_toString x)
   \<and> frequencyToString (JNum (Num False 453 (- 1))) = Inr ''45.3''
   \<and> frequencyToString (JNum (Num False 1 2)) = Inr ''100''
   \<and> frequencyToString (JNum (Zero False)) = Inr ''0''
   \<and> frequencyToString (JNum NaN) = Inr ''NaN''
   \<and> frequencyToString (JNum (Inf False)) = Inr ''Infinity''"
  by (simp add: frequencyToString_def toString_45_3 toString_100
        del: Number_toString.simps(4) One_nat_def)

theorem frequencyToString_numbers_witness:
  "frequencyToString (JNum (Num True 15 (- 8))) = Inr ''-1.5e-7''
   \<and> frequencyToString (JNum (Num False 123456789 (- 3))) = Inr ''123456.789''
   \<and> frequencyToString (JNum (Num False 1 21)) = Inr ''1e+21''
   \<and> frequencyToString (JNum (Inf True)) = Inr ''-Infinity''"
  using frequencyToString_numbers [of "Num True 15 (- 8)"]
    frequencyToString_numbers [of "Num False 123456789 (- 3)"]
    frequencyToString_numbers [of "Num False 1 21"]
    frequencyToString_numbers [of "Inf True"]
    toString_small toString_fraction toString_large
  by (simp del: Number_toString.simps(4) One_nat_def)

text \<open>
  C2. \<^verbatim>\<open>getConnectionStatus\<close> is a function of its two arguments alone. With no
  URL (\<^verbatim>\<open>null\<close>) it gives \<^verbatim>\<open>"DISCONNECTED"\<close> when there is no window and
  \<^verbatim>\<open>"WAITING_FOR_CONNECTION"\<close> when there is one. It gives \<^verbatim>\<open>"CONNECTED"\<close>, with
  or without a window, exactly when the URL is set, that is truthy; every non-empty
  string is.
\<close>

theorem getConnectionStatus_cases:
  "getConnectionStatus Null False = ''DISCONNECTED''
   \<and> getConnectionStatus Null True = ''WAITING_FOR_CONNECTION''
   \<and> (truthy u \<longrightarrow> getConnectionStatus u b = ''CONNECTED'')
   \<and> (s \<noteq> [] \<longrightarrow> getConnectionStatus (JStr s) b = ''CONNECTED'')
   \<and> (getConnectionStatus u b = ''CONNECTED'' \<longrightarrow> truthy u)"
  by (simp add: getConnectionStatus_def)

theorem getConnectionStatus_cases_witness:
  "truthy (JStr ''http://example.com'')
   \<and> getConnectionStatus (JStr ''http://example.com'') True = ''CONNECTED''
   \<and> getConnectionStatus (JStr ''any-url'') False = ''CONNECTED''"
  using getConnectionStatus_cases [of "JStr ''http://example.com''" True "''any-url''" ]
    getConnectionStatus_cases [of "JStr ''any-url''" False "''any-url''" ]
  by simp

section \<open>Push-to-talk\<close>

text \<open>
  C1, as the code has it. The state has a window, \<open>p\<close> and \<open>q\<close> are two requests
  \<^verbatim>\<open>POST /ptt/press\<close> handled one after the other, \<open>r\<close> is a request
  \<^verbatim>\<open>POST /ptt/release\<close>. When PTT is not pressed, the two presses emit exactly one
  press event, the first; when it is pressed already, they emit none. In both cases
  the second press emits nothing and changes nothing. A release while PTT is not
  pressed emits nothing and changes nothing. Every one of these responses is
  \<^verbatim>\<open>200 {success: true}\<close>. This holds for the library's handler and for the
  server of \<^verbatim>\<open>main.cjs\<close>.
\<close>

theorem ptt_idempotent:
  assumes "mainWindow st" and "is_post p ''/ptt/press''" and "is_post q ''/ptt/press''"
    and "is_post r ''/ptt/release''"
  shows
   "(let h = createRequestHandler t st p;
         h' = createRequestHandler t' (new_state h) q;
         h'' = createRequestHandler t'' st r
     in (\<not> isPTTPressed st \<longrightarrow> emitted h @ emitted h' = [onPTTPress])
      \<and> (isPTTPressed st \<longrightarrow> emitted h @ emitted h' = [])
      \<and> emitted h' = [] \<and> new_state h' = new_state h \<and> isPTTPressed (new_state h)
      \<and> (\<not> isPTTPressed st \<longrightarrow> emitted h'' = [] \<and> new_state h'' = st)
      \<and> answers (reply h) 200 success \<and> answers (reply h') 200 success
      \<and> answers (reply h'') 200 success)
  \<and> (let h = startLocalServer t st p;
         h' = startLocalServer t' (new_state h) q;
         h'' = startLocalServer t'' st r
     in (\<not> isPTTPressed st \<longrightarrow> emitted h @ emitted h' = [send ''ptt:press'' []])
      \<and> (isPTTPressed st \<longrightarrow> emitted h @ emitted h' = [])
      \<and> emitted h' = [] \<and> new_state h' = new_state h \<and> isPTTPressed (new_state h)
      \<and> (\<not> isPTTPressed st \<longrightarrow> emitted h'' = [] \<and> new_state h'' = st)
      \<and> answers (reply h) 200 success \<and> answers (reply h') 200 success
      \<and> answers (reply h'') 200 success)"
  using assms
  by (simp add: lib_press lib_release main_press main_release Let_def new_state_def
        emitted_def reply_def answers_sendJSON)

theorem ptt_idempotent_witness:
  "mainWindow \<lparr>mainWindow = True, isPTTPressed = False, serverURL = Null, lastHeartbeat = None\<rparr>
   \<and> is_post (post ''/ptt/press'' Empty) ''/ptt/press''
   \<and> is_post (post ''/ptt/release'' Empty) ''/ptt/release''
   \<and> emitted (createRequestHandler 1
        \<lparr>mainWindow = True, isPTTPressed = False, serverURL = Null, lastHeartbeat = None\<rparr>
        (post ''/ptt/press'' Empty))
     @ emitted (createRequestHandler 2
        (new_state (createRequestHandler 1
           \<lparr>mainWindow = True, isPTTPressed = False, serverURL = Null, lastHeartbeat = None\<rparr>
           (post ''/ptt/press'' Empty)))
        (post ''/ptt/press'' Empty))
     = [onPTTPress]
   \<and> emitted (startLocalServer 1
        \<lparr>mainWindow = True, isPTTPressed = False, serverURL = Null, lastHeartbeat = None\<rparr>
        (post ''/ptt/press'' Empty))
     @ emitted (startLocalServer 2
        (new_state (startLocalServer 1
           \<lparr>mainWindow = True, isPTTPressed = False, serverURL = Null, lastHeartbeat = None\<rparr>
           (post ''/ptt/press'' Empty)))
        (post ''/ptt/press'' Empty))
     = [send ''ptt:press'' []]
   \<and> emitted (createRequestHandler 3
        \<lparr>mainWindow = True, isPTTPressed = False, serverURL = Null, lastHeartbeat = None\<rparr>
        (post ''/ptt/release'' Empty)) = []"
  using ptt_idempotent
    [of "\<lparr>mainWindow = True, isPTTPressed = False, serverURL = Null, lastHeartbeat = None\<rparr>"
        "post ''/ptt/press'' Empty" "post ''/ptt/press'' Empty" "post ''/ptt/release'' Empty"
        1 2 3]
  by (simp add: is_post_post Let_def lib_press lib_release main_press new_state_def
        emitted_def)

text \<open>
  The claim as it is written fails in a state that has a window and in which PTT is
  pressed already, the state after a window was created and one press was served: two
  more presses in a row emit no press event at all, in the library's handler and in
  \<^verbatim>\<open>main.cjs\<close>.
\<close>

theorem ptt_press_twice_counterexample:
  "run [WindowCreated False, Request 1 (post ''/ptt/press'' Empty)] initial_state
     = \<lparr>mainWindow = True, isPTTPressed = True, serverURL = Null, lastHeartbeat = None\<rparr>
   \<and> emitted (createRequestHandler 2
        \<lparr>mainWindow = True, isPTTPressed = True, serverURL = Null, lastHeartbeat = None\<rparr>
        (post ''/ptt/press'' Empty))
     @ emitted (createRequestHandler 3
        (new_state (createRequestHandler 2
           \<lparr>mainWindow = True, isPTTPressed = True, serverURL = Null, lastHeartbeat = None\<rparr>
           (post ''/ptt/press'' Empty)))
        (post ''/ptt/press'' Empty))
     = []
   \<and> emitted (startLocalServer 2
        \<lparr>mainWindow = True, isPTTPressed = True, serverURL = Null, lastHeartbeat = None\<rparr>
        (post ''/ptt/press'' Empty))
     @ emitted (startLocalServer 3
        (new_state (startLocalServer 2
           \<lparr>mainWindow = True, isPTTPressed = True, serverURL = Null, lastHeartbeat = None\<rparr>
           (post ''/ptt/press'' Empty)))
        (post ''/ptt/press'' Empty))
     = []"
  by (simp add: lib_press main_press is_post_post new_state_def emitted_def
        initial_state_def createWindow_def)

section \<open>Connecting\<close>

text \<open>
  C4, as the code has it, for a request \<^verbatim>\<open>POST /connect\<close>. The answer is
  \<^verbatim>\<open>400 {error: "Missing url parameter"}\<close> exactly when the body is read to a
  value (the empty body reads as \<^verbatim>\<open>{}\<close>) that is not \<^verbatim>\<open>null\<close> and whose
  \<^verbatim>\<open>url\<close> is falsy: absent, \<^verbatim>\<open>null\<close>, \<^verbatim>\<open>false\<close>, \<^verbatim>\<open>0\<close>,
  \<^verbatim>\<open>NaN\<close> or the empty string. When \<^verbatim>\<open>url\<close> is truthy, whatever its form, the
  handler stores it as the server URL, sets the last heartbeat to now, reports the
  connection with the URL (the library calls \<^verbatim>\<open>onConnect\<close>, \<^verbatim>\<open>main.cjs\<close>
  loads the URL into the window if there is one) and answers
  \<^verbatim>\<open>200 {success: true, url}\<close>. When the body cannot be read, or reads as
  \<^verbatim>\<open>null\<close>, the answer is \<^verbatim>\<open>400 {error: "Invalid JSON"}\<close> and nothing changes.
\<close>

theorem connect_route:
  assumes "is_post req ''/connect''"
  shows
   "(answers (reply (createRequestHandler now st req)) 400 (error_body ''Missing url parameter'')
       = (\<exists>data v. parseJSONBody (req_body req) = Inr data \<and> getp data ''url'' = Inr v \<and> \<not> truthy v))
  \<and> (answers (reply (startLocalServer now st req)) 400 (error_body ''Missing url parameter'')
       = (\<exists>data v. parseJSONBody (req_body req) = Inr data \<and> getp data ''url'' = Inr v \<and> \<not> truthy v))
  \<and> (parseJSONBody (req_body req) = Inr data \<and> getp data ''url'' = Inr u \<and> truthy u \<longrightarrow>
        createRequestHandler now st req =
          (st\<lparr>serverURL := u, lastHeartbeat := Some now\<rparr>, [onConnect u],
           sendJSON (setCORSHeaders (req_origin req)) 200 (JObj [(''success'', JBool True), (''url'', u)]))
      \<and> startLocalServer now st req =
          (st\<lparr>serverURL := u, lastHeartbeat := Some now\<rparr>,
           (if mainWindow st then [loadURL u] else []),
           sendJSON (setCORSHeaders (req_origin req)) 200 (JObj [(''success'', JBool True), (''url'', u)])))
  \<and> ((\<forall>d. parseJSONBody (req_body req) = Inr d \<longrightarrow> d = Null \<or> d = Undefined) \<longrightarrow>
        createRequestHandler now st req =
          (st, [], sendJSON (setCORSHeaders (req_origin req)) 400 (error_body ''Invalid JSON''))
      \<and> startLocalServer now st req =
          (st, [], sendJSON (setCORSHeaders (req_origin req)) 400 (error_body ''Invalid JSON'')))
  \<and> ((\<not> truthy w) = (w \<in> {Undefined, Null, JBool False, JStr [], JNum NaN, JNum (Zero False), JNum (Zero True)}))"
proof -
  let ?m = "bind_exn (parseJSONBody (req_body req)) (\<lambda>data. getp data ''url'')"
  have a: "answers (reply (createRequestHandler now st req)) 400 (error_body ''Missing url parameter'')
       = (\<exists>data v. parseJSONBody (req_body req) = Inr data \<and> getp data ''url'' = Inr v \<and> \<not> truthy v)"
    by (cases ?m)
       (auto simp: lib_connect [OF assms] reply_def answers_sendJSON error_body_inj bind_exn_Inr
          split: sum.splits)
  have b: "answers (reply (startLocalServer now st req)) 400 (error_body ''Missing url parameter'')
       = (\<exists>data v. parseJSONBody (req_body req) = Inr data \<and> getp data ''url'' = Inr v \<and> \<not> truthy v)"
    by (cases ?m)
       (auto simp: main_connect [OF assms] reply_def answers_sendJSON error_body_inj bind_exn_Inr
          split: sum.splits)
  have c: "parseJSONBody (req_body req) = Inr data \<and> getp data ''url'' = Inr u \<and> truthy u \<longrightarrow>
        createRequestHandler now st req =
          (st\<lparr>serverURL := u, lastHeartbeat := Some now\<rparr>, [onConnect u],
           sendJSON (setCORSHeaders (req_origin req)) 200 (JObj [(''success'', JBool True), (''url'', u)]))
      \<and> startLocalServer now st req =
          (st\<lparr>serverURL := u, lastHeartbeat := Some now\<rparr>,
           (if mainWindow st then [loadURL u] else []),
           sendJSON (setCORSHeaders (req_origin req)) 200 (JObj [(''success'', JBool True), (''url'', u)]))"
    by (simp add: lib_connect [OF assms] main_connect [OF assms] to_window_def)
  have d: "(\<forall>d. parseJSONBody (req_body req) = Inr d \<longrightarrow> d = Null \<or> d = Undefined) \<longrightarrow>
        createRequestHandler now st req =
          (st, [], sendJSON (setCORSHeaders (req_origin req)) 400 (error_body ''Invalid JSON''))
      \<and> startLocalServer now st req =
          (st, [], sendJSON (setCORSHeaders (req_origin req)) 400 (error_body ''Invalid JSON''))"
    by (cases "parseJSONBody (req_body req)")
       (auto simp: lib_connect [OF assms] main_connect [OF assms])
  from a b c d falsy [of w] show ?thesis by blast
qed

theorem connect_route_witness:
  "is_post (post ''/connect'' (Json (JObj [(''url'', JStr ''http://x'')]))) ''/connect''
   \<and> createRequestHandler 1000
        \<lparr>mainWindow = True, isPTTPressed = False, serverURL = Null, lastHeartbeat = None\<rparr>
        (post ''/connect'' (Json (JObj [(''url'', JStr ''http://x'')])))
     = (\<lparr>mainWindow = True, isPTTPressed = False, serverURL = JStr ''http://x'', lastHeartbeat = Some 1000\<rparr>,
        [onConnect (JStr ''http://x'')],
        sendJSON (setCORSHeaders None) 200 (JObj [(''success'', JBool True), (''url'', JStr ''http://x'')]))
   \<and> startLocalServer 1000
        \<lparr>mainWindow = True, isPTTPressed = False, serverURL = Null, lastHeartbeat = None\<rparr>
        (post ''/connect'' (Json (JObj [(''url'', JStr ''http://x'')])))
     = (\<lparr>mainWindow = True, isPTTPressed = False, serverURL = JStr ''http://x'', lastHeartbeat = Some 1000\<rparr>,
        [loadURL (JStr ''http://x'')],
        sendJSON (setCORSHeaders None) 200 (JObj [(''success'', JBool True), (''url'', JStr ''http://x'')]))
   \<and> answers (reply (createRequestHandler 1000 initial_state (post ''/connect'' (Json (JObj [])))))
        400 (error_body ''Missing url parameter'')
   \<and> createRequestHandler 1000 initial_state (post ''/connect'' Malformed)
     = (initial_state, [], sendJSON (setCORSHeaders None) 400 (error_body ''Invalid JSON''))"
  using connect_route [of "post ''/connect'' (Json (JObj [(''url'', JStr ''http://x'')]))"
      1000 "\<lparr>mainWindow = True, isPTTPressed = False, serverURL = Null, lastHeartbeat = None\<rparr>"
      "JObj [(''url'', JStr ''http://x'')]" "JStr ''http://x''" Null]
    connect_route [of "post ''/connect'' (Json (JObj []))" 1000 initial_state Null Null Null]
    connect_route [of "post ''/connect'' Malformed" 1000 initial_state Null Null Null]
  by (simp add: is_post_post post_fields)

text \<open>
  The claim as it is written fails on the bodies \<^verbatim>\<open>{"url": 0}\<close> and
  \<^verbatim>\<open>{"url": false}\<close>: \<^verbatim>\<open>url\<close> is there, and the answer is still
  \<^verbatim>\<open>400 {error: "Missing url parameter"}\<close>. On the body \<^verbatim>\<open>null\<close>, which has
  no \<^verbatim>\<open>url\<close>, the answer is \<^verbatim>\<open>400 {error: "Invalid JSON"}\<close>. And with no
  window \<^verbatim>\<open>main.cjs\<close> accepts a URL without loading it anywhere.
\<close>

theorem connect_falsy_url_counterexample:
  "getp (JObj [(''url'', JNum (Zero False))]) ''url'' = Inr (JNum (Zero False))
   \<and> createRequestHandler 1000 initial_state (post ''/connect'' (Json (JObj [(''url'', JNum (Zero False))])))
     = (initial_state, [], sendJSON (setCORSHeaders None) 400 (error_body ''Missing url parameter''))
   \<and> startLocalServer 1000 initial_state (post ''/connect'' (Json (JObj [(''url'', JNum (Zero False))])))
     = (initial_state, [], sendJSON (setCORSHeaders None) 400 (error_body ''Missing url parameter''))
   \<and> getp (JObj [(''url'', JBool False)]) ''url'' = Inr (JBool False)
   \<and> createRequestHandler 1000 initial_state (post ''/connect'' (Json (JObj [(''url'', JBool False)])))
     = (initial_state, [], sendJSON (setCORSHeaders None) 400 (error_body ''Missing url parameter''))
   \<and> createRequestHandler 1000 initial_state (post ''/connect'' (Json Null))
     = (initial_state, [], sendJSON (setCORSHeaders None) 400 (error_body ''Invalid JSON''))
   \<and> emitted (startLocalServer 1000 initial_state (post ''/connect'' (Json (JObj [(''url'', JStr ''http://x'')])))) = []"
  by (simp add: lib_connect main_connect is_post_post post_fields to_window_def emitted_def initial_state_def)

section \<open>Errors\<close>

text \<open>
  C10. \<^verbatim>\<open>parseJSONBody\<close> of the library reads an empty body as \<^verbatim>\<open>{}\<close>. So a
  POST with an empty body to a route that reads its body is refused with the message
  of that route's own check, not with \<^verbatim>\<open>"Invalid JSON"\<close>, and nothing else
  happens; \<^verbatim>\<open>main.cjs\<close>, which reads bodies with the same function, does the same.
\<close>

theorem empty_body_validation:
  assumes "req_method req = ''POST''" and "req_body req = Empty"
  shows
   "parseJSONBody (req_body req) = Inr (JObj [])
    \<and> (let refuse = (\<lambda>msg. sendJSON (setCORSHeaders (req_origin req)) 400 (error_body msg)) in
       (req_url req = ''/connect'' \<longrightarrow>
          createRequestHandler now st req = (st, [], refuse ''Missing url parameter'')
          \<and> startLocalServer now st req = (st, [], refuse ''Missing url parameter''))
     \<and> (req_url req = ''/frequency'' \<longrightarrow>
          createRequestHandler now st req = (st, [], refuse ''Missing frequency parameter'')
          \<and> startLocalServer now st req = (st, [], refuse ''Missing frequency parameter''))
     \<and> (req_url req = ''/frequencies'' \<longrightarrow>
          createRequestHandler now st req = (st, [], refuse ''frequencies must be an array'')
          \<and> startLocalServer now st req = (st, [], refuse ''frequencies must be an array''))
     \<and> (req_url req = ''/active-channel'' \<longrightarrow>
          createRequestHandler now st req = (st, [], refuse ''frequency must be a number'')
          \<and> startLocalServer now st req = (st, [], refuse ''frequency must be a number''))
     \<and> (req_url req = ''/ear-side'' \<longrightarrow>
          createRequestHandler now st req = (st, [], refuse ''frequency and earSide must be numbers'')
          \<and> startLocalServer now st req = (st, [], refuse ''frequency and earSide must be numbers''))
     \<and> (req_url req = ''/frequency/disconnect'' \<longrightarrow>
          createRequestHandler now st req = (st, [], refuse ''frequency must be a number'')
          \<and> startLocalServer now st req = (st, [], refuse ''frequency must be a number'')))"
  using lib_empty_body [OF assms, of _ now st] main_empty_body [OF assms, of _ now st] assms
  by (simp add: Let_def)

theorem empty_body_validation_witness:
  "req_method (post ''/connect'' Empty) = ''POST'' \<and> req_body (post ''/connect'' Empty) = Empty
   \<and> createRequestHandler 1 initial_state (post ''/connect'' Empty)
     = (initial_state, [], sendJSON (setCORSHeaders None) 400 (error_body ''Missing url parameter''))
   \<and> startLocalServer 1 initial_state (post ''/connect'' Empty)
     = (initial_state, [], sendJSON (setCORSHeaders None) 400 (error_body ''Missing url parameter''))
   \<and> createRequestHandler 1 initial_state (post ''/ear-side'' Empty)
     = (initial_state, [],
        sendJSON (setCORSHeaders None) 400 (error_body ''frequency and earSide must be numbers''))"
  using empty_body_validation [of "post ''/connect'' Empty" 1 initial_state]
    empty_body_validation [of "post ''/ear-side'' Empty" 1 initial_state]
  by (simp add: post_fields Let_def)

text \<open>
  C9, as the code has it. On a route that reads a body, a body that cannot be read
  is answered \<^verbatim>\<open>400 {error: "Invalid JSON"}\<close> and nothing else happens. A request
  whose method is not \<^verbatim>\<open>OPTIONS\<close> and whose method and path are not in the route
  table is answered \<^verbatim>\<open>404 {error: "Not found"}\<close>; a request with the method
  \<^verbatim>\<open>OPTIONS\<close> is answered 200 with no body, whatever its path. Every request gets
  a response, its status is 200, 400 or 404, never a 5xx. A body that is an object and
  fails a check of the specification's route table is answered 400 with the message of
  that check, and nothing else happens. A 400 always carries
  \<^verbatim>\<open>"Invalid JSON"\<close> or the message of one of the validation checks: an exception
  thrown in the \<^verbatim>\<open>try\<close> block ends as the \<^verbatim>\<open>"Invalid JSON"\<close> response and
  leaves the state as it was.
\<close>

theorem error_responses:
  "((req_method req, req_url req) \<in> set body_routes \<and> parseJSONBody (req_body req) = Inl err \<longrightarrow>
      createRequestHandler now st req =
        (st, [], sendJSON (setCORSHeaders (req_origin req)) 400 (error_body ''Invalid JSON''))
      \<and> startLocalServer now st req =
        (st, [], sendJSON (setCORSHeaders (req_origin req)) 400 (error_body ''Invalid JSON'')))
   \<and> (req_method req \<noteq> ''OPTIONS'' \<and> (req_method req, req_url req) \<notin> set route_table \<longrightarrow>
      createRequestHandler now st req =
        (st, [], sendJSON (setCORSHeaders (req_origin req)) 404 (error_body ''Not found''))
      \<and> startLocalServer now st req =
        (st, [], sendJSON (setCORSHeaders (req_origin req)) 404 (error_body ''Not found'')))
   \<and> (req_method req = ''OPTIONS'' \<longrightarrow>
      createRequestHandler now st req = (st, [], preflight (setCORSHeaders (req_origin req)))
      \<and> startLocalServer now st req = (st, [], preflight (setCORSHeaders (req_origin req))))
   \<and> (is_post req path \<and> parseJSONBody (req_body req) = Inr (JObj fs)
       \<and> spec_validation_failure path fs = Some msg \<longrightarrow>
      createRequestHandler now st req =
        (st, [], sendJSON (setCORSHeaders (req_origin req)) 400 (error_body msg))
      \<and> startLocalServer now st req =
        (st, [], sendJSON (setCORSHeaders (req_origin req)) 400 (error_body msg)))
   \<and> (req_method req \<noteq> ''OPTIONS''
       \<and> routes now st req (setCORSHeaders (req_origin req)) = Inl thrown \<longrightarrow>
      createRequestHandler now st req =
        (st, [], sendJSON (setCORSHeaders (req_origin req)) 400 (error_body ''Invalid JSON'')))
   \<and> (req_method req \<noteq> ''OPTIONS''
       \<and> server_routes now st req (setCORSHeaders (req_origin req)) = Inl thrown \<longrightarrow>
      startLocalServer now st req =
        (st, [], sendJSON (setCORSHeaders (req_origin req)) 400 (error_body ''Invalid JSON'')))
   \<and> statusCode (reply (createRequestHandler now st req)) \<in> {200, 400, 404}
   \<and> statusCode (reply (startLocalServer now st req)) \<in> {200, 400, 404}
   \<and> (statusCode (reply (createRequestHandler now st req)) = 400 \<longrightarrow>
        (\<exists>m \<in> set (''Invalid JSON'' # validation_messages).
           payload (reply (createRequestHandler now st req)) = Some (error_body m)))
   \<and> (statusCode (reply (startLocalServer now st req)) = 400 \<longrightarrow>
        (\<exists>m \<in> set (''Invalid JSON'' # validation_messages).
           payload (reply (startLocalServer now st req)) = Some (error_body m)))"
proof -
  have unparsed:
    "(req_method req, req_url req) \<in> set body_routes \<and> parseJSONBody (req_body req) = Inl err \<longrightarrow>
      createRequestHandler now st req =
        (st, [], sendJSON (setCORSHeaders (req_origin req)) 400 (error_body ''Invalid JSON''))
      \<and> startLocalServer now st req =
        (st, [], sendJSON (setCORSHeaders (req_origin req)) 400 (error_body ''Invalid JSON''))"
    using lib_unparsed [of req err now st] main_unparsed [of req err now st] by simp
  have unknown:
    "req_method req \<noteq> ''OPTIONS'' \<and> (req_method req, req_url req) \<notin> set route_table \<longrightarrow>
      createRequestHandler now st req =
        (st, [], sendJSON (setCORSHeaders (req_origin req)) 404 (error_body ''Not found''))
      \<and> startLocalServer now st req =
        (st, [], sendJSON (setCORSHeaders (req_origin req)) 404 (error_body ''Not found''))"
    using lib_unknown [of req now st] main_unknown [of req now st] by simp
  have options:
    "req_method req = ''OPTIONS'' \<longrightarrow>
      createRequestHandler now st req = (st, [], preflight (setCORSHeaders (req_origin req)))
      \<and> startLocalServer now st req = (st, [], preflight (setCORSHeaders (req_origin req)))"
    using options_preflight [of req now st] by simp
  have failure:
    "is_post req path \<and> parseJSONBody (req_body req) = Inr (JObj fs)
       \<and> spec_validation_failure path fs = Some msg \<longrightarrow>
      createRequestHandler now st req =
        (st, [], sendJSON (setCORSHeaders (req_origin req)) 400 (error_body msg))
      \<and> startLocalServer now st req =
        (st, [], sendJSON (setCORSHeaders (req_origin req)) 400 (error_body msg))"
    using lib_validation_failure [of req path fs msg now st]
      main_validation_failure [of req path fs msg now st]
    by simp
  have caught:
    "req_method req \<noteq> ''OPTIONS''
       \<and> routes now st req (setCORSHeaders (req_origin req)) = Inl thrown \<longrightarrow>
      createRequestHandler now st req =
        (st, [], sendJSON (setCORSHeaders (req_origin req)) 400 (error_body ''Invalid JSON''))"
    "req_method req \<noteq> ''OPTIONS''
       \<and> server_routes now st req (setCORSHeaders (req_origin req)) = Inl thrown \<longrightarrow>
      startLocalServer now st req =
        (st, [], sendJSON (setCORSHeaders (req_origin req)) 400 (error_body ''Invalid JSON''))"
    using lib_caught [of req now st thrown] main_caught [of req now st thrown] by simp_all
  have codes:
    "statusCode (reply (createRequestHandler now st req)) \<in> {200, 400, 404}"
    "statusCode (reply (startLocalServer now st req)) \<in> {200, 400, 404}"
    "statusCode (reply (createRequestHandler now st req)) = 400 \<longrightarrow>
        (\<exists>m \<in> set (''Invalid JSON'' # validation_messages).
           payload (reply (createRequestHandler now st req)) = Some (error_body m))"
    "statusCode (reply (startLocalServer now st req)) = 400 \<longrightarrow>
        (\<exists>m \<in> set (''Invalid JSON'' # validation_messages).
           payload (reply (startLocalServer now st req)) = Some (error_body m))"
    using lib_well_answered [of now st req] main_well_answered [of now st req]
    unfolding well_answered_def by blast+
  show ?thesis
    by (intro conjI) (rule unparsed unknown options failure caught codes)+
qed

theorem error_responses_witness:
  "(req_method (post ''/ear-side'' Malformed), req_url (post ''/ear-side'' Malformed)) \<in> set body_routes
   \<and> parseJSONBody (req_body (post ''/ear-side'' Malformed)) = Inl SyntaxError
   \<and> createRequestHandler 1 initial_state (post ''/ear-side'' Malformed)
     = (initial_state, [], sendJSON (setCORSHeaders None) 400 (error_body ''Invalid JSON''))
   \<and> startLocalServer 1 initial_state (post ''/ear-side'' Malformed)
     = (initial_state, [], sendJSON (setCORSHeaders None) 400 (error_body ''Invalid JSON''))
   \<and> (req_method (post ''/unknown'' Empty), req_url (post ''/unknown'' Empty)) \<notin> set route_table
   \<and> createRequestHandler 1 initial_state (post ''/unknown'' Empty)
     = (initial_state, [], sendJSON (setCORSHeaders None) 404 (error_body ''Not found''))
   \<and> statusCode (reply (createRequestHandler 1 initial_state (post ''/unknown'' Empty))) = 404
   \<and> spec_validation_failure ''/ear-side''
        [(''frequency'', JNum (Num False 453 (- 1))), (''earSide'', JNum (Num False 5 0))]
     = Some ''earSide must be 0 (left), 1 (right), or 2 (both)''
   \<and> createRequestHandler 1 initial_state
        (post ''/ear-side''
           (Json (JObj [(''frequency'', JNum (Num False 453 (- 1))),
                        (''earSide'', JNum (Num False 5 0))])))
     = (initial_state, [],
        sendJSON (setCORSHeaders None) 400
          (error_body ''earSide must be 0 (left), 1 (right), or 2 (both)''))"
proof -
  have f: "spec_validation_failure ''/ear-side''
        [(''frequency'', JNum (Num False 453 (- 1))), (''earSide'', JNum (Num False 5 0))]
     = Some ''earSide must be 0 (left), 1 (right), or 2 (both)''"
    by (simp add: spec_validation_failure_def field_def is_ear_side_def)
  show ?thesis
    using error_responses [where req = "post ''/ear-side'' Malformed" and err = SyntaxError
        and now = 1 and st = initial_state]
      error_responses [where req = "post ''/unknown'' Empty" and now = 1 and st = initial_state]
      error_responses [where req = "post ''/ear-side''
           (Json (JObj [(''frequency'', JNum (Num False 453 (- 1))),
                        (''earSide'', JNum (Num False 5 0))]))"
        and path = "''/ear-side''"
        and fs = "[(''frequency'', JNum (Num False 453 (- 1))), (''earSide'', JNum (Num False 5 0))]"
        and msg = "''earSide must be 0 (left), 1 (right), or 2 (both)''"
        and now = 1 and st = initial_state]
      f
    by (simp add: post_fields is_post_post body_routes_def route_table_def reply_def
          sendJSON_fields)
qed

text \<open>
  The claim as it is written fails on \<^verbatim>\<open>OPTIONS /unknown\<close>: the pair is not in the
  route table, and the answer is 200 with no body, not 404, since both handlers answer
  a preflight request before they look at the path.
\<close>

theorem options_not_found_counterexample:
  "(''OPTIONS'', ''/unknown'') \<notin> set route_table
   \<and> statusCode (reply (createRequestHandler 1 initial_state
        \<lparr>req_method = ''OPTIONS'', req_url = ''/unknown'', req_origin = None, req_body = Empty\<rparr>))
     = 200
   \<and> payload (reply (createRequestHandler 1 initial_state
        \<lparr>req_method = ''OPTIONS'', req_url = ''/unknown'', req_origin = None, req_body = Empty\<rparr>))
     = None
   \<and> statusCode (reply (startLocalServer 1 initial_state
        \<lparr>req_method = ''OPTIONS'', req_url = ''/unknown'', req_origin = None, req_body = Empty\<rparr>))
     = 200
   \<and> payload (reply (startLocalServer 1 initial_state
        \<lparr>req_method = ''OPTIONS'', req_url = ''/unknown'', req_origin = None, req_body = Empty\<rparr>))
     = None"
  by (simp add: route_table_def createRequestHandler_def startLocalServer_def reply_def
        preflight_def)

section \<open>Status and connection\<close>

text \<open>
  C3. In every state that \<^verbatim>\<open>main.cjs\<close> reaches from its initial state, by any
  sequence of requests, timer ticks, window creations and window closings, the server
  URL is not \<^verbatim>\<open>null\<close> exactly when the status is \<^verbatim>\<open>"CONNECTED"\<close>; the response
  to \<^verbatim>\<open>GET /status\<close> carries the status body of that state, in which
  \<^verbatim>\<open>connected\<close> is true exactly when \<^verbatim>\<open>status\<close> is \<^verbatim>\<open>"CONNECTED"\<close>. The same
  holds for the library's handler after any sequence of requests on a state object
  that started with no server URL, or with a truthy one.
\<close>

theorem connected_iff_status:
  "(let s = run evs initial_state in
      (serverURL s \<noteq> Null) = (getConnectionStatus (serverURL s) (mainWindow s) = ''CONNECTED'')
      \<and> (req_method req = ''GET'' \<and> req_url req = ''/status'' \<longrightarrow>
           reply (startLocalServer now s req) = sendJSON (setCORSHeaders (req_origin req)) 200 (status_body s))
      \<and> (getp (status_body s) ''connected'' = Inr (JBool True))
          = (getp (status_body s) ''status'' = Inr (JStr ''CONNECTED'')))
   \<and> (serverURL st = Null \<or> truthy (serverURL st) \<longrightarrow>
        (let s = serve rs st in
          (serverURL s \<noteq> Null) = (getConnectionStatus (serverURL s) (mainWindow s) = ''CONNECTED'')
          \<and> (req_method req = ''GET'' \<and> req_url req = ''/status'' \<longrightarrow>
               reply (createRequestHandler now s req) = sendJSON (setCORSHeaders (req_origin req)) 200 (status_body s))
          \<and> (getp (status_body s) ''connected'' = Inr (JBool True))
              = (getp (status_body s) ''status'' = Inr (JStr ''CONNECTED''))))"
proof -
  have a: "url_ok (run evs initial_state)" by (rule run_url_ok) (rule initial_ok)
  have b: "serverURL st = Null \<or> truthy (serverURL st) \<Longrightarrow> url_ok (serve rs st)"
    by (rule serve_url_ok) (simp add: url_ok_def)
  show ?thesis
    using url_ok_connected [OF a] url_ok_connected [OF b]
    by (simp add: Let_def main_status lib_status reply_def status_fields)
qed

theorem connected_iff_status_witness:
  "serverURL initial_state = Null
   \<and> serverURL (run [WindowCreated False,
                     Request 1000 (post ''/connect'' (Json (JObj [(''url'', JStr ''http://x'')])))]
                    initial_state) = JStr ''http://x''
   \<and> payload (reply (startLocalServer 2000
        (run [WindowCreated False,
              Request 1000 (post ''/connect'' (Json (JObj [(''url'', JStr ''http://x'')])))]
             initial_state)
        \<lparr>req_method = ''GET'', req_url = ''/status'', req_origin = None, req_body = Empty\<rparr>))
     = Some (JObj [(''running'', JBool True), (''status'', JStr ''CONNECTED''),
                   (''pttPressed'', JBool False), (''connected'', JBool True),
                   (''serverURL'', JStr ''http://x'')])
   \<and> payload (reply (createRequestHandler 2000
        (serve [(1000, post ''/connect'' (Json (JObj [(''url'', JStr ''http://x'')])))]
               initial_state)
        \<lparr>req_method = ''GET'', req_url = ''/status'', req_origin = None, req_body = Empty\<rparr>))
     = Some (JObj [(''running'', JBool True), (''status'', JStr ''CONNECTED''),
                   (''pttPressed'', JBool False), (''connected'', JBool True),
                   (''serverURL'', JStr ''http://x'')])
   \<and> getp (status_body (serve [(1000, post ''/ptt/press'' Empty)] initial_state)) ''connected''
       = Inr (JBool False)
   \<and> getp (status_body (serve [(1000, post ''/ptt/press'' Empty)] initial_state)) ''status''
       = Inr (JStr ''DISCONNECTED'')"
  using connected_iff_status
    [of "[WindowCreated False,
          Request 1000 (post ''/connect'' (Json (JObj [(''url'', JStr ''http://x'')])))]"
        "\<lparr>req_method = ''GET'', req_url = ''/status'', req_origin = None, req_body = Empty\<rparr>"
        2000 initial_state
        "[(1000, post ''/connect'' (Json (JObj [(''url'', JStr ''http://x'')])))]"]
    connected_iff_status
    [of "[]"
        "\<lparr>req_method = ''GET'', req_url = ''/status'', req_origin = None, req_body = Empty\<rparr>"
        2000 initial_state "[(1000, post ''/ptt/press'' Empty)]"]
  by (simp add: Let_def main_connect lib_connect lib_press is_post_post post_fields
        createWindow_def initial_state_def status_fields getConnectionStatus_def to_window_def
        status_body_def sendJSON_fields)

section \<open>Disconnecting\<close>

text \<open>
  C5, as the code has it. \<^verbatim>\<open>disconnect\<close>, which has the same text in
  \<^verbatim>\<open>main.cjs\<close> and in the earlier single-file version of the main process, always
  leaves the server URL and the last heartbeat \<^verbatim>\<open>null\<close> and prints its reason
  once. It releases PTT only when there is a window: then PTT is not pressed
  afterwards, and a release event is sent exactly when PTT was pressed. With no window
  the PTT flag stays as it was and no release event is sent. \<^verbatim>\<open>POST /disconnect\<close>
  runs it with the reason \<^verbatim>\<open>"manual"\<close>, and a tick of the heartbeat timer either
  does nothing or runs it with the reason \<^verbatim>\<open>"heartbeat_timeout"\<close>.
\<close>

theorem disconnect_resets:
  "(case disconnect reason st of (s, effs) \<Rightarrow>
      serverURL s = Null \<and> lastHeartbeat s = None \<and> mainWindow s = mainWindow st
      \<and> isPTTPressed s = (isPTTPressed st \<and> \<not> mainWindow st)
      \<and> count_list effs (send ''ptt:release'' [])
          = (if isPTTPressed st \<and> mainWindow st then 1 else 0)
      \<and> count_list effs (log_disconnect reason) = 1)
   \<and> (is_post d ''/disconnect'' \<longrightarrow>
        startLocalServer now st d =
          (fst (disconnect ''manual'' st), snd (disconnect ''manual'' st),
           sendJSON (setCORSHeaders (req_origin d)) 200 success))
   \<and> (heartbeatCheck now st = (st, [])
       \<or> heartbeatCheck now st = disconnect ''heartbeat_timeout'' st)"
proof -
  have "disconnect reason st = (fst (disconnect reason st), snd (disconnect reason st))" by simp
  then show ?thesis
    using tick_cases [of now st] main_disconnect [of d now st]
    by (auto simp: disconnect_state disconnect_effects split: prod.splits)
qed

theorem disconnect_resets_witness:
  "is_post (post ''/disconnect'' Empty) ''/disconnect''
   \<and> disconnect ''manual''
        \<lparr>mainWindow = True, isPTTPressed = True, serverURL = JStr ''http://x'',
         lastHeartbeat = Some 1000\<rparr>
     = (\<lparr>mainWindow = True, isPTTPressed = False, serverURL = Null, lastHeartbeat = None\<rparr>,
        [log_disconnect ''manual'', send ''ptt:release'' [], loadFile ''waiting.html''])
   \<and> startLocalServer 2000
        \<lparr>mainWindow = True, isPTTPressed = True, serverURL = JStr ''http://x'',
         lastHeartbeat = Some 1000\<rparr>
        (post ''/disconnect'' Empty)
     = (\<lparr>mainWindow = True, isPTTPressed = False, serverURL = Null, lastHeartbeat = None\<rparr>,
        [log_disconnect ''manual'', send ''ptt:release'' [], loadFile ''waiting.html''],
        sendJSON (setCORSHeaders None) 200 success)"
  using disconnect_resets
    [where reason = "''manual''"
       and st = "\<lparr>mainWindow = True, isPTTPressed = True, serverURL = JStr ''http://x'',
          lastHeartbeat = Some 1000\<rparr>"
       and d = "post ''/disconnect'' Empty" and now = 2000]
  by (simp add: is_post_post post_fields disconnect_def Let_def)

text \<open>
  The claim as it is written fails in the state reached when a window is created, a
  connection is made, PTT is pressed and the window is closed: PTT is pressed and there
  is no window. There \<^verbatim>\<open>disconnect\<close>, called by \<^verbatim>\<open>POST /disconnect\<close> or by the
  heartbeat timer, leaves PTT pressed and sends no release event.
\<close>

theorem disconnect_keeps_ptt_counterexample:
  "run [WindowCreated False,
        Request 1000 (post ''/connect'' (Json (JObj [(''url'', JStr ''http://x'')]))),
        Request 2000 (post ''/ptt/press'' Empty),
        WindowClosed] initial_state
     = \<lparr>mainWindow = False, isPTTPressed = True, serverURL = JStr ''http://x'',
        lastHeartbeat = Some 1000\<rparr>
   \<and> disconnect ''manual''
        \<lparr>mainWindow = False, isPTTPressed = True, serverURL = JStr ''http://x'',
         lastHeartbeat = Some 1000\<rparr>
     = (\<lparr>mainWindow = False, isPTTPressed = True, serverURL = Null, lastHeartbeat = None\<rparr>,
        [log_disconnect ''manual''])
   \<and> heartbeatCheck 40000
        \<lparr>mainWindow = False, isPTTPressed = True, serverURL = JStr ''http://x'',
         lastHeartbeat = Some 1000\<rparr>
     = (\<lparr>mainWindow = False, isPTTPressed = True, serverURL = Null, lastHeartbeat = None\<rparr>,
        [log_disconnect ''heartbeat_timeout''])"
  by (simp add: main_connect main_press is_post_post post_fields createWindow_def closed_def
        initial_state_def to_window_def disconnect_def heartbeatCheck_def HEARTBEAT_TIMEOUT_def
        Let_def)

section \<open>The heartbeat monitor\<close>

text \<open>
  C6. \<open>s\<close> is any state that \<^verbatim>\<open>main.cjs\<close> reaches from its initial state while
  the clock readings are positive. A tick of the heartbeat timer at the time \<open>now\<close>
  runs \<^verbatim>\<open>disconnect("heartbeat_timeout")\<close>, the function that
  \<^verbatim>\<open>POST /disconnect\<close> runs with \<^verbatim>\<open>"manual"\<close>, exactly when the server URL is
  set, the last heartbeat is set, and more than 30000 ms have passed since it;
  otherwise the tick does nothing. \<^verbatim>\<open>POST /heartbeat\<close> sets the last heartbeat to
  the current time and changes nothing else. So a tick does nothing as long as the
  last heartbeat is at most 30000 ms old, in particular after a heartbeat request
  served at most 30000 ms before it. The timer's period, 5000 ms, is the argument of
  \<^verbatim>\<open>setInterval\<close>; the statement holds for a tick at any time.
\<close>

theorem heartbeat_monitor:
  assumes "list_all clock_ok evs" and "s = run evs initial_state"
  shows
   "(heartbeatCheck now s = disconnect ''heartbeat_timeout'' s)
       = (serverURL s \<noteq> Null \<and> (\<exists>t. lastHeartbeat s = Some t \<and> 30000 < now - t))
    \<and> (heartbeatCheck now s = (s, []))
       = (\<not> (serverURL s \<noteq> Null \<and> (\<exists>t. lastHeartbeat s = Some t \<and> 30000 < now - t)))
    \<and> (is_post d ''/disconnect'' \<longrightarrow>
         startLocalServer now s d =
           (fst (disconnect ''manual'' s), snd (disconnect ''manual'' s),
            sendJSON (setCORSHeaders (req_origin d)) 200 success))
    \<and> (is_post hb ''/heartbeat'' \<longrightarrow>
         startLocalServer t s hb =
           (s\<lparr>lastHeartbeat := Some t\<rparr>, [], sendJSON (setCORSHeaders (req_origin hb)) 200 success)
         \<and> createRequestHandler t s hb =
           (s\<lparr>lastHeartbeat := Some t\<rparr>, [], sendJSON (setCORSHeaders (req_origin hb)) 200 success)
         \<and> (now - t \<le> 30000 \<longrightarrow>
              heartbeatCheck now (new_state (startLocalServer t s hb))
                = (new_state (startLocalServer t s hb), [])))
    \<and> ((\<exists>t. lastHeartbeat s = Some t \<and> now - t \<le> 30000) \<longrightarrow> heartbeatCheck now s = (s, []))"
proof -
  have u: "url_ok s" unfolding assms(2) by (rule run_url_ok) (rule initial_ok)
  have h: "hb_ok s" unfolding assms(2) using assms(1) by (rule run_hb_ok) (rule initial_ok)
  have a: "(heartbeatCheck now s = disconnect ''heartbeat_timeout'' s)
       = (serverURL s \<noteq> Null \<and> (\<exists>t. lastHeartbeat s = Some t \<and> 30000 < now - t))"
    using disconnect_not_silent [of "''heartbeat_timeout''" s s]
    by (auto simp: tick_on_ok [OF u h] HEARTBEAT_TIMEOUT_def)
  have b: "(heartbeatCheck now s = (s, []))
       = (\<not> (serverURL s \<noteq> Null \<and> (\<exists>t. lastHeartbeat s = Some t \<and> 30000 < now - t)))"
    using disconnect_not_silent [of "''heartbeat_timeout''" s s]
    by (auto simp: tick_on_ok [OF u h] HEARTBEAT_TIMEOUT_def)
  have c: "is_post hb ''/heartbeat'' \<Longrightarrow> now - t \<le> 30000 \<Longrightarrow>
      heartbeatCheck now (new_state (startLocalServer t s hb))
        = (new_state (startLocalServer t s hb), [])"
    by (simp add: main_heartbeat new_state_def heartbeatCheck_def HEARTBEAT_TIMEOUT_def)
  have e: "(\<exists>t. lastHeartbeat s = Some t \<and> now - t \<le> 30000) \<longrightarrow> heartbeatCheck now s = (s, [])"
    using b by auto
  show ?thesis
    using a b c e main_disconnect [of d now s] main_heartbeat [of hb t s]
      lib_heartbeat [of hb t s]
    by blast
qed

theorem heartbeat_monitor_witness:
  "list_all clock_ok
     [WindowCreated False,
      Request 1000 (post ''/connect'' (Json (JObj [(''url'', JStr ''http://x'')]))),
      Request 20000 (post ''/heartbeat'' Empty)]
   \<and> run [WindowCreated False,
          Request 1000 (post ''/connect'' (Json (JObj [(''url'', JStr ''http://x'')]))),
          Request 20000 (post ''/heartbeat'' Empty)] initial_state
     = \<lparr>mainWindow = True, isPTTPressed = False, serverURL = JStr ''http://x'',
        lastHeartbeat = Some 20000\<rparr>
   \<and> heartbeatCheck 60000
        \<lparr>mainWindow = True, isPTTPressed = False, serverURL = JStr ''http://x'',
         lastHeartbeat = Some 20000\<rparr>
     = disconnect ''heartbeat_timeout''
        \<lparr>mainWindow = True, isPTTPressed = False, serverURL = JStr ''http://x'',
         lastHeartbeat = Some 20000\<rparr>
   \<and> heartbeatCheck 50000
        \<lparr>mainWindow = True, isPTTPressed = False, serverURL = JStr ''http://x'',
         lastHeartbeat = Some 20000\<rparr>
     = (\<lparr>mainWindow = True, isPTTPressed = False, serverURL = JStr ''http://x'',
         lastHeartbeat = Some 20000\<rparr>, [])"
proof -
  have r: "run [WindowCreated False,
          Request 1000 (post ''/connect'' (Json (JObj [(''url'', JStr ''http://x'')]))),
          Request 20000 (post ''/heartbeat'' Empty)] initial_state
     = \<lparr>mainWindow = True, isPTTPressed = False, serverURL = JStr ''http://x'',
        lastHeartbeat = Some 20000\<rparr>"
    by (simp add: main_connect main_heartbeat is_post_post post_fields createWindow_def
          initial_state_def to_window_def)
  have c: "list_all clock_ok
     [WindowCreated False,
      Request 1000 (post ''/connect'' (Json (JObj [(''url'', JStr ''http://x'')]))),
      Request 20000 (post ''/heartbeat'' Empty)]"
    by simp
  show ?thesis
    using heartbeat_monitor [OF c r [symmetric], where now = 60000
        and d = "post ''/disconnect'' Empty" and hb = "post ''/heartbeat'' Empty" and t = 1]
      heartbeat_monitor [OF c r [symmetric], where now = 50000
        and d = "post ''/disconnect'' Empty" and hb = "post ''/heartbeat'' Empty" and t = 1]
      c r
    by simp
qed

end
